theory Spec2Isabelle
  imports Main "HOL-Library.Word" "HOL-Library.Signed_Division"
begin

unbundle bit_operations_syntax

section \<open>Data model of player.c\<close>

text \<open>
  Sequence numbers are \<open>seq_t\<close>, a 16-bit unsigned integer; RTP timestamps are
  \<open>uint32_t\<close>; PCM samples are \<open>signed short\<close>, kept as 16-bit words and read with
  \<open>sint\<close>. \<open>int32_t\<close> and \<open>int64_t\<close> values are 32-bit and 64-bit words read
  with \<open>sint\<close>; \<open>long\<close> and \<open>unsigned long\<close> are taken as 64 bits wide.
\<close>

type_synonym seq_t = "16 word"

definition BUFFER_FRAMES :: nat where
  "BUFFER_FRAMES = 512"

text \<open>\<open>struct audio_buffer_entry\<close>. The field \<open>ready\<close> only ever holds 0 or 1.\<close>

record abuf_t =
  ready :: bool
  timestamp :: "32 word"
  sequence_number :: seq_t
  data :: "16 word list"

text \<open>\<open>#define BUFIDX(seqno) ((seq_t)(seqno) % BUFFER_FRAMES)\<close>\<close>

definition BUFIDX :: "seq_t \<Rightarrow> nat" where
  "BUFIDX seqno = unat seqno mod BUFFER_FRAMES"

text \<open>
  The calls \<open>buffer_get_frame\<close> makes to the outside: the back end's \<open>flush\<close>, its
  \<open>play\<close> with a block of silence of the given number of frames, and
  \<open>rtsp_request_shutdown_stream\<close>.
\<close>

datatype output_call = OutputFlush | PlaySilence "32 word" | RequestShutdown

text \<open>
  The mutex-protected variables of the file and its other globals, the packet statistics,
  the calls made to the external \<open>rtp_request_resend\<close>, recorded in order in
  \<open>resend_log\<close>, and the other outside calls in \<open>output_calls\<close>. The array
  \<open>audio_buffer[BUFFER_FRAMES]\<close> is a function of the index; every access goes through
  \<open>BUFIDX\<close>, which is below \<open>BUFFER_FRAMES\<close>. \<open>play_segment_reference_frame\<close> and
  \<open>play_segment_reference_frame_remote_time\<close> are globals declared outside this file.
\<close>

record player_state =
  audio_buffer :: "nat \<Rightarrow> abuf_t"
  ab_read :: seq_t
  ab_write :: seq_t
  ab_buffering :: bool
  ab_synced :: bool
  flush_requested :: bool
  flush_rtp_timestamp :: "32 word"
  time_of_last_audio_packet :: "64 word"
  connection_state_to_output :: bool
  packet_count :: "64 word"
  last_seqno_read :: "32 word"
  missing_packets :: "64 word"
  late_packets :: "64 word"
  too_late_packets :: "64 word"
  resend_requests :: "64 word"
  resend_log :: "(seq_t \<times> 32 word) list"
  play_segment_reference_frame :: "32 word"
  play_segment_reference_frame_remote_time :: "64 word"
  first_packet_timestamp :: "32 word"
  first_packet_time_to_play :: "64 word"
  time_since_play_started :: "64 word"
  shutdown_requested :: bool
  please_stop :: bool
  output_calls :: "output_call list"

section \<open>Sequence arithmetic\<close>

definition SUCCESSOR :: "seq_t \<Rightarrow> seq_t" where
  "SUCCESSOR x =
     (let p = (ucast x :: 32 word) AND 0xffff;
          p = p + 1;
          p = p AND 0xffff
      in ucast p)"

definition PREDECESSOR :: "seq_t \<Rightarrow> seq_t" where
  "PREDECESSOR x =
     (let p = ((ucast x :: 32 word) AND 0xffff) + 0x10000;
          p = p - 1;
          p = p AND 0xffff
      in ucast p)"

text \<open>
  \<open>ORDINATE\<close> reads the global \<open>ab_read\<close>; it is the first argument here. The result
  is an \<open>int32_t\<close>.
\<close>

definition ORDINATE :: "seq_t \<Rightarrow> seq_t \<Rightarrow> 32 word" where
  "ORDINATE abr x =
     (let p = (ucast x :: 32 word) AND 0xffff;
          q = (ucast abr :: 32 word) AND 0x0ffff;
          t = (p + 0x10000 - q) AND 0xffff
      in if 32767 \<le>s t then t - 65536 else t)"

definition seq_diff :: "seq_t \<Rightarrow> seq_t \<Rightarrow> seq_t \<Rightarrow> 32 word" where
  "seq_diff abr a b = (let diff = ORDINATE abr b - ORDINATE abr a in diff)"

definition seq_order :: "seq_t \<Rightarrow> seq_t \<Rightarrow> seq_t \<Rightarrow> bool" where
  "seq_order abr a b = (let d = ORDINATE abr b - ORDINATE abr a in 0 <s d)"

text \<open>In \<open>seq_sum\<close> the locals \<open>p\<close> and \<open>q\<close> are computed and not used.\<close>

definition seq_sum :: "seq_t \<Rightarrow> seq_t \<Rightarrow> seq_t" where
  "seq_sum a b =
     (let r = ((ucast a :: 32 word) + ucast b) AND 0xffff
      in ucast r)"

definition seq32_order :: "32 word \<Rightarrow> 32 word \<Rightarrow> bool" where
  "seq32_order a b =
     (if a = b then False
      else
        let A = (ucast a :: 64 word) AND 0xffffffff;
            B = (ucast b :: 64 word) AND 0xffffffff;
            C = B - A
        in C AND 0x80000000 = 0)"

section \<open>The producer: \<open>player_put_packet\<close>\<close>

text \<open>\<open>ab_resync\<close> clears every ready flag and sequence number and drops the sync.\<close>

definition ab_resync :: "player_state \<Rightarrow> player_state" where
  "ab_resync st =
     st\<lparr>audio_buffer := (\<lambda>i. (audio_buffer st i)\<lparr>ready := False, sequence_number := 0\<rparr>),
        ab_synced := False,
        last_seqno_read := - 1,
        ab_buffering := True\<rparr>"

text \<open>
  The loop \<open>for (i = 0; i < gap; i++)\<close> of the newer-than-expected branch: \<open>n\<close> is the
  number of iterations left and \<open>i\<close> the loop counter, which \<open>seq_sum\<close> receives
  converted to \<open>seq_t\<close>.
\<close>

fun zero_slots :: "nat \<Rightarrow> nat \<Rightarrow> seq_t \<Rightarrow> (nat \<Rightarrow> abuf_t) \<Rightarrow> (nat \<Rightarrow> abuf_t)" where
  "zero_slots 0 i abw buf = buf"
| "zero_slots (Suc n) i abw buf =
     zero_slots n (i + 1) abw
       (buf(BUFIDX (seq_sum abw (of_nat i)) :=
          (buf (BUFIDX (seq_sum abw (of_nat i))))\<lparr>ready := False, timestamp := 0, sequence_number := 0\<rparr>))"

text \<open>
  The classification of \<open>seqno\<close> against the cursors. The result is the index of the
  slot \<open>abuf\<close> points to, or \<open>None\<close> where \<open>abuf\<close> stays null, and the updated state.
\<close>

definition put_classify :: "player_state \<Rightarrow> seq_t \<Rightarrow> nat option \<times> player_state" where
  "put_classify st seqno =
     (if ab_write st = seqno then
        (Some (BUFIDX seqno), st\<lparr>ab_write := SUCCESSOR seqno\<rparr>)
      else if seq_order (ab_read st) (ab_write st) seqno then
        (let gap = seq_diff (ab_read st) (ab_write st) (PREDECESSOR seqno) + 1;
             buf = zero_slots (nat (sint gap)) 0 (ab_write st) (audio_buffer st)
         in (Some (BUFIDX seqno),
             st\<lparr>audio_buffer := buf,
                resend_log := resend_log st @ [(ab_write st, gap)],
                resend_requests := resend_requests st + 1,
                ab_write := SUCCESSOR seqno\<rparr>))
      else if seq_order (ab_read st) (ab_read st) seqno then
        (Some (BUFIDX seqno), st\<lparr>late_packets := late_packets st + 1\<rparr>)
      else
        (None, st\<lparr>too_late_packets := too_late_packets st + 1\<rparr>))"

text \<open>
  \<open>alac_decode\<close> writes one decoded frame at the start of the slot's buffer. The decoder
  is external: \<open>pcm\<close> is the frame it produces for the packet's payload.
\<close>

definition alac_decode :: "16 word list \<Rightarrow> 16 word list \<Rightarrow> 16 word list" where
  "alac_decode dest pcm = pcm @ drop (length pcm) dest"

text \<open>
  \<open>player_put_packet\<close>; \<open>now\<close> is the value of \<open>get_absolute_time_in_fp()\<close>. The
  debug messages and the signal on the condition variable change none of the variables.
\<close>

definition player_put_packet ::
    "player_state \<Rightarrow> 64 word \<Rightarrow> seq_t \<Rightarrow> 32 word \<Rightarrow> 16 word list \<Rightarrow> player_state" where
  "player_put_packet st0 now seqno ts pcm =
     (let st = st0\<lparr>packet_count := packet_count st0 + 1, time_of_last_audio_packet := now\<rparr>
      in
        if connection_state_to_output st then
          (if flush_rtp_timestamp st \<noteq> 0 \<and>
              (ts = flush_rtp_timestamp st \<or> seq32_order ts (flush_rtp_timestamp st))
           then st
           else
             let st = (if flush_rtp_timestamp st \<noteq> 0 \<and> \<not> seq32_order ts (flush_rtp_timestamp st)
                       then st\<lparr>flush_rtp_timestamp := 0\<rparr> else st);
                 st = (if \<not> ab_synced st
                       then st\<lparr>ab_write := seqno, ab_read := seqno, ab_synced := True\<rparr> else st);
                 (abuf, st) = put_classify st seqno
             in case abuf of
                  None \<Rightarrow> st
                | Some i \<Rightarrow>
                    st\<lparr>audio_buffer := (audio_buffer st)
                          (i := (audio_buffer st i)
                                  \<lparr>data := alac_decode (data (audio_buffer st i)) pcm,
                                   ready := True,
                                   timestamp := ts,
                                   sequence_number := seqno\<rparr>)\<rparr>)
        else st)"

text \<open>\<open>player_flush\<close> (the metadata message is not part of the state).\<close>

definition player_flush :: "player_state \<Rightarrow> 32 word \<Rightarrow> player_state" where
  "player_flush st ts =
     st\<lparr>flush_requested := True,
        flush_rtp_timestamp := ts,
        play_segment_reference_frame := 0\<rparr>"

text \<open>
  The state \<open>player_play\<close> and the start of \<open>player_thread_func\<close> leave behind:
  the static initialisers, \<open>init_buffer\<close> (each slot's buffer comes from \<open>malloc\<close>;
  \<open>mem\<close> is its content) followed by \<open>ab_resync\<close>, the counters and
  \<open>flush_rtp_timestamp\<close> set to 0, and \<open>connection_state_to_output\<close> set to the
  requested state \<open>rco\<close>.
\<close>

definition play_state :: "bool \<Rightarrow> 16 word list \<Rightarrow> player_state" where
  "play_state rco mem =
     ab_resync
       \<lparr>audio_buffer = (\<lambda>i. \<lparr>ready = False, timestamp = 0, sequence_number = 0, data = mem\<rparr>),
        ab_read = 0, ab_write = 0, ab_buffering = True, ab_synced = False,
        flush_requested = False, flush_rtp_timestamp = 0, time_of_last_audio_packet = 0,
        connection_state_to_output = rco, packet_count = 0, last_seqno_read = 0,
        missing_packets = 0, late_packets = 0, too_late_packets = 0, resend_requests = 0,
        resend_log = [], play_segment_reference_frame = 0,
        play_segment_reference_frame_remote_time = 0, first_packet_timestamp = 0,
        first_packet_time_to_play = 0, time_since_play_started = 0,
        shutdown_requested = False, please_stop = False, output_calls = []\<rparr>"

section \<open>Stuffing and software volume\<close>

text \<open>
  \<open>shortmean\<close>: the division of two \<open>long\<close> values truncates towards zero. The second
  component of the result says whether the debug message of the branch
  \<open>r != longmean\<close> is issued.
\<close>

definition sdiv_long :: "64 word \<Rightarrow> 64 word \<Rightarrow> 64 word" where
  "sdiv_long a b = word_of_int (sint a sdiv sint b)"

definition shortmean :: "16 word \<Rightarrow> 16 word \<Rightarrow> 16 word \<times> bool" where
  "shortmean a b =
     (let al = (scast a :: 64 word);
          bl = (scast b :: 64 word);
          longmean = sdiv_long (al + bl) 2;
          r = (ucast longmean :: 16 word)
      in (r, (scast r :: 64 word) \<noteq> longmean))"

text \<open>
  The volume state: \<open>fix_volume\<close>, the static \<open>lcg_prev\<close> of \<open>lcg_rand\<close>, and the
  values found in the uninitialised local \<open>rand_a\<close> of \<open>dithered_vol\<close>, which the code
  copies to \<open>rand_b\<close> before it assigns \<open>rand_a\<close>. C leaves such a value indeterminate;
  \<open>rand_a_uninit k\<close> is the value met by the \<open>k\<close>-th such read.
\<close>

record vol_state =
  fix_volume :: "32 word"
  lcg_prev :: "64 word"
  rand_a_uninit :: "nat \<Rightarrow> 16 word"
  uninit_reads :: nat

text \<open>
  The volume state at program start: the static initialisers \<open>fix_volume = 0x10000\<close>
  and \<open>lcg_prev = 12345\<close>; \<open>u\<close> supplies the indeterminate values.
\<close>

definition vol_initial :: "(nat \<Rightarrow> 16 word) \<Rightarrow> vol_state" where
  "vol_initial u = \<lparr>fix_volume = 0x10000, lcg_prev = 12345, rand_a_uninit = u, uninit_reads = 0\<rparr>"

definition lcg_rand :: "64 word \<Rightarrow> 16 word \<times> 64 word" where
  "lcg_rand prev = (let p = prev * 69069 + 3 in (ucast (p AND 0xffff), p))"

definition dithered_vol :: "vol_state \<Rightarrow> 16 word \<Rightarrow> 16 word \<times> vol_state" where
  "dithered_vol vs sample =
     (let out = (scast sample :: 64 word) * scast (fix_volume vs)
      in
        if fix_volume vs <s 0x10000 then
          (let rand_b = rand_a_uninit vs (uninit_reads vs);
               (rand_a, lp) = lcg_rand (lcg_prev vs);
               out = out + scast rand_a;
               out = out - scast rand_b
           in (ucast (signed_drop_bit 16 out),
               vs\<lparr>lcg_prev := lp, uninit_reads := uninit_reads vs + 1\<rparr>))
        else (ucast (signed_drop_bit 16 out), vs))"

text \<open>
  The copy loops of \<open>stuff_buffer_basic\<close>: \<open>n\<close> iterations, each moving one stereo
  sample from position \<open>ip\<close> of the input through \<open>dithered_vol\<close> to the end of the
  output. The input is the whole buffer \<open>inptr\<close> points to; a read outside it has no
  defined result, which is \<open>None\<close>.
\<close>

fun copy_samples ::
    "nat \<Rightarrow> vol_state \<Rightarrow> 16 word list \<Rightarrow> nat \<Rightarrow> 16 word list
      \<Rightarrow> (vol_state \<times> nat \<times> 16 word list) option" where
  "copy_samples 0 vs inp ip out = Some (vs, ip, out)"
| "copy_samples (Suc n) vs inp ip out =
     (if ip + 1 < length inp then
        (let (l, vs1) = dithered_vol vs (inp ! ip);
             (r, vs2) = dithered_vol vs1 (inp ! (ip + 1))
         in copy_samples n vs2 inp (ip + 2) (out @ [l, r]))
      else None)"

text \<open>
  \<open>stuff_buffer_basic\<close>; \<open>rnd\<close> is the value of \<open>rand()\<close>. The result is the return
  value, the samples written to \<open>outptr\<close> in order, and the volume state; \<open>None\<close> where
  the C has no defined result (a remainder by zero, a read outside the buffer).
\<close>

definition stuff_buffer_basic ::
    "vol_state \<Rightarrow> int \<Rightarrow> 16 word list \<Rightarrow> int \<Rightarrow> int
      \<Rightarrow> (int \<times> 16 word list \<times> vol_state) option" where
  "stuff_buffer_basic vs frame_size inp stuff rnd =
     (if stuff > 1 \<or> stuff < - 1 then Some (frame_size, [], vs)
      else if stuff \<noteq> 0 \<and> frame_size - 2 = 0 then None
      else
        let stuffsamp = (if stuff \<noteq> 0 then (rnd smod (frame_size - 2)) + 1 else frame_size)
        in case copy_samples (nat stuffsamp) vs inp 0 [] of
             None \<Rightarrow> None
           | Some (vs1, ip, out1) \<Rightarrow>
               if stuff \<noteq> 0 then
                 (if stuff = 1 then
                    (if 2 \<le> ip \<and> ip + 1 < length inp then
                       (let (l, vs2) = dithered_vol vs1 (fst (shortmean (inp ! (ip - 2)) (inp ! ip)));
                            (r, vs3) = dithered_vol vs2 (fst (shortmean (inp ! (ip - 1)) (inp ! (ip + 1))))
                        in case copy_samples (nat (frame_size + stuff - stuffsamp)) vs3 inp ip (out1 @ [l, r]) of
                             None \<Rightarrow> None
                           | Some (vs4, ip4, out4) \<Rightarrow> Some (frame_size + stuff, out4, vs4))
                     else None)
                  else
                    (case copy_samples (nat (frame_size + stuff - stuffsamp)) vs1 inp (ip + 2) out1 of
                       None \<Rightarrow> None
                     | Some (vs4, ip4, out4) \<Rightarrow> Some (frame_size + stuff, out4, vs4)))
               else Some (frame_size + stuff, out1, vs1))"

section \<open>The player thread\<close>

text \<open>
  One pass of the loop of \<open>player_thread_func\<close> over a frame that \<open>buffer_get_frame\<close>
  returned. \<open>struct stats\<close> and the locals of the function that live across passes are
  records; the counters of the statistics window stay within \<open>[0, trend_interval]\<close> and
  are natural numbers. \<open>played\<close> records the calls of \<open>config.output->play\<close> in order,
  each with the buffer passed and the sample count; \<open>outbuf\<close> is the output buffer, whose
  start \<open>stuff_buffer_basic\<close> overwrites. \<open>session_corrections\<close> and \<open>buffer_occupancy\<close>
  are globals declared outside this file.
\<close>

definition trend_interval :: nat where
  "trend_interval = 3758"

definition DAC_BUFFER_QUEUE_MINIMUM_LENGTH :: "64 word" where
  "DAC_BUFFER_QUEUE_MINIMUM_LENGTH = 5000"

record stats_t =
  sync_error :: "64 word"
  correction :: "64 word"
  drift :: "64 word"

record thread_state =
  play_number :: "32 word"
  at_least_one_frame_seen :: bool
  sync_error_out_of_bounds :: "32 word"
  statistics :: "nat \<Rightarrow> stats_t"
  number_of_statistics :: nat
  oldest_statistic :: nat
  newest_statistic :: nat
  tsum_of_sync_errors :: "64 word"
  tsum_of_corrections :: "64 word"
  tsum_of_insertions_and_deletions :: "64 word"
  tsum_of_drifts :: "64 word"
  previous_sync_error :: "64 word"
  previous_correction :: "64 word"
  minimum_dac_queue_size :: "64 word"
  minimum_buffer_occupancy :: "32 word"
  maximum_buffer_occupancy :: "32 word"
  session_corrections :: "64 word"
  buffer_occupancy :: "32 word"
  outbuf :: "16 word list"
  played :: "(16 word list \<times> int) list"
  ring :: player_state
  vol :: vol_state

text \<open>
  What a pass reads from outside: the reference timestamp pair, the clock, the result of
  \<open>config.output->delay\<close> (\<open>None\<close> where the back end has no such function), the
  values of \<open>random()\<close> and \<open>rand()\<close>, the global \<open>frame_size\<close>, and the fields of
  \<open>config\<close> (declared outside this file; taken as \<open>int\<close>).
\<close>

record frame_env =
  reference_timestamp :: "32 word"
  reference_timestamp_time :: "64 word"
  local_time_now :: "64 word"
  output_delay :: "64 word option"
  random_value :: int
  rand_value :: int
  latency :: "32 word"
  tolerance :: "32 word"
  resyncthreshold :: "32 word"
  frame_size :: int

text \<open>The time since the reference, in frames (lines 944 to 951).\<close>

definition td_in_frames :: "64 word \<Rightarrow> 64 word \<Rightarrow> 64 word" where
  "td_in_frames now ref_time =
     (let td = now - ref_time
      in if 0 \<le>s td then signed_drop_bit 32 (td * 44100)
         else - (signed_drop_bit 32 (- td * 44100)))"

text \<open>The out-of-sequence minder \<open>last_seqno_read\<close> (lines 959 to 970).\<close>

definition check_sequencing :: "32 word \<Rightarrow> seq_t \<Rightarrow> 32 word" where
  "check_sequencing lsr seqno =
     (if lsr = - 1 then ucast seqno
      else
        let l = (ucast (SUCCESSOR (ucast lsr)) :: 32 word) AND 0xffff
        in if ucast seqno \<noteq> l then ucast seqno else l)"

text \<open>The tolerance test and the DAC queue test (lines 999 to 1010).\<close>

definition stuff_decision :: "64 word \<Rightarrow> 32 word \<Rightarrow> 64 word \<Rightarrow> int" where
  "stuff_decision sync_err tol current_delay =
     (let amount_to_stuff = 0;
          amount_to_stuff = (if scast tol <s sync_err then - 1 else amount_to_stuff);
          amount_to_stuff = (if sync_err <s scast (- tol) then 1 else amount_to_stuff);
          amount_to_stuff =
            (if current_delay <s DAC_BUFFER_QUEUE_MINIMUM_LENGTH then 0 else amount_to_stuff)
      in amount_to_stuff)"

text \<open>
  The limit on early corrections (lines 1016 to 1028); \<open>rnd\<close> is the value of \<open>random()\<close>.
  The comparison of the unsigned \<open>local_time_now\<close> with the signed
  \<open>first_packet_time_to_play\<close> is unsigned, and so is the shift.
\<close>

definition stuff_rate_limit :: "int \<Rightarrow> 64 word \<Rightarrow> 64 word \<Rightarrow> int \<Rightarrow> int" where
  "stuff_rate_limit amount_to_stuff now fpttp rnd =
     (if amount_to_stuff \<noteq> 0 then
        (if now \<noteq> 0 \<and> fpttp \<noteq> 0 \<and> fpttp \<le> now then
           (let tp = drop_bit 32 (now - fpttp)
            in if tp <s 5 then 0
               else if tp <s 30 then (if rnd smod 1000 > 352 then 0 else amount_to_stuff)
               else amount_to_stuff)
         else amount_to_stuff)
      else amount_to_stuff)"

text \<open>
  Sending the frame to the output (lines 1030 to 1068), in the build without libsoxr:
  directly, or through \<open>stuff_buffer_basic\<close> and \<open>outbuf\<close>.
\<close>

definition emit_frame :: "frame_env \<Rightarrow> 16 word list \<Rightarrow> int \<Rightarrow> thread_state \<Rightarrow> thread_state option" where
  "emit_frame env inbuf amount_to_stuff t =
     (if amount_to_stuff = 0 \<and> fix_volume (vol t) = 0x10000 then
        Some (t\<lparr>played := played t @ [(inbuf, frame_size env)]\<rparr>)
      else
        case stuff_buffer_basic (vol t) (frame_size env) inbuf amount_to_stuff (rand_value env) of
          None \<Rightarrow> None
        | Some (play_samples, out, vs) \<Rightarrow>
            (let ob = out @ drop (length out) (outbuf t)
             in Some (t\<lparr>vol := vs, outbuf := ob, played := played t @ [(ob, play_samples)]\<rparr>)))"

text \<open>
  The loss-of-sync test (lines 1072 to 1087). \<open>abs\<close> takes an \<open>int\<close>, so the 64-bit
  \<open>sync_error\<close> is truncated on the way in.
\<close>

definition abs_int :: "32 word \<Rightarrow> 32 word" where
  "abs_int x = (if x <s 0 then - x else x)"

definition check_loss_of_sync ::
    "frame_env \<Rightarrow> 32 word \<Rightarrow> 64 word \<Rightarrow> thread_state \<Rightarrow> thread_state" where
  "check_loss_of_sync env frame_ts sync_err t =
     (if frame_ts \<noteq> 0 \<and> \<not> please_stop (ring t) \<and> resyncthreshold env \<noteq> 0
         \<and> resyncthreshold env <s abs_int (ucast sync_err)
      then
        (let t = t\<lparr>sync_error_out_of_bounds := sync_error_out_of_bounds t + 1\<rparr>
         in if 3 <s sync_error_out_of_bounds t
            then t\<lparr>sync_error_out_of_bounds := 0, ring := player_flush (ring t) frame_ts\<rparr>
            else t)
      else t\<lparr>sync_error_out_of_bounds := 0\<rparr>)"

text \<open>The running statistics (lines 1107 to 1144).\<close>

definition update_statistics :: "64 word \<Rightarrow> int \<Rightarrow> thread_state \<Rightarrow> thread_state" where
  "update_statistics sync_err amount_to_stuff t0 =
     (let t = (if number_of_statistics t0 = trend_interval then
                 (let old = statistics t0 (oldest_statistic t0)
                  in t0\<lparr>tsum_of_sync_errors := tsum_of_sync_errors t0 - sync_error old,
                        tsum_of_drifts := tsum_of_drifts t0 - drift old,
                        tsum_of_insertions_and_deletions :=
                          (if 0 <s correction old
                           then tsum_of_insertions_and_deletions t0 - correction old
                           else tsum_of_insertions_and_deletions t0 + correction old),
                        tsum_of_corrections := tsum_of_corrections t0 - correction old,
                        oldest_statistic := (oldest_statistic t0 + 1) mod trend_interval,
                        number_of_statistics := number_of_statistics t0 - 1\<rparr>)
               else t0);
          d = (if number_of_statistics t = 0 then 0
               else sync_err - previous_sync_error t - previous_correction t);
          t = t\<lparr>statistics := (statistics t)
                    (newest_statistic t :=
                       \<lparr>sync_error = sync_err, correction = of_int amount_to_stuff, drift = d\<rparr>),
                 previous_sync_error := sync_err,
                 previous_correction := of_int amount_to_stuff,
                 tsum_of_sync_errors := tsum_of_sync_errors t + sync_err,
                 tsum_of_drifts := tsum_of_drifts t + d,
                 tsum_of_insertions_and_deletions :=
                   (if 0 < amount_to_stuff
                    then tsum_of_insertions_and_deletions t + of_int amount_to_stuff
                    else tsum_of_insertions_and_deletions t - of_int amount_to_stuff),
                 tsum_of_corrections := tsum_of_corrections t + of_int amount_to_stuff,
                 session_corrections := session_corrections t + of_int amount_to_stuff\<rparr>
      in t\<lparr>newest_statistic := (newest_statistic t + 1) mod trend_interval,
            number_of_statistics := number_of_statistics t + 1\<rparr>)"

text \<open>Marking the frame as finished (lines 1099 and 1100), then the statistics.\<close>

definition finish_frame :: "nat \<Rightarrow> 64 word \<Rightarrow> int \<Rightarrow> thread_state \<Rightarrow> thread_state" where
  "finish_frame slot sync_err amount_to_stuff t =
     update_statistics sync_err amount_to_stuff
       (t\<lparr>ring := (ring t)\<lparr>audio_buffer := (audio_buffer (ring t))
              (slot := (audio_buffer (ring t) slot)\<lparr>timestamp := 0, sequence_number := 0\<rparr>)\<rparr>\<rparr>)"

text \<open>The branch for a frame whose timestamp is not 0 (lines 920 to 1145).\<close>

definition frame_with_data :: "frame_env \<Rightarrow> nat \<Rightarrow> thread_state \<Rightarrow> thread_state option" where
  "frame_with_data env slot t0 =
     (let inframe = audio_buffer (ring t0) slot;
          inbuf = data inframe;
          t = t0\<lparr>at_least_one_frame_seen := True\<rparr>;
          rt = (ucast (reference_timestamp env) :: 64 word);
          nt = (ucast (timestamp inframe) :: 64 word);
          tdf = td_in_frames (local_time_now env) (reference_timestamp_time env);
          t = t\<lparr>ring := (ring t)\<lparr>last_seqno_read :=
                 check_sequencing (last_seqno_read (ring t)) (sequence_number inframe)\<rparr>\<rparr>;
          occ = seq_diff (ab_read (ring t)) (ab_read (ring t)) (ab_write (ring t));
          t = t\<lparr>buffer_occupancy := occ\<rparr>;
          t = (if occ <s minimum_buffer_occupancy t then t\<lparr>minimum_buffer_occupancy := occ\<rparr> else t);
          t = (if maximum_buffer_occupancy t <s occ then t\<lparr>maximum_buffer_occupancy := occ\<rparr> else t)
      in case output_delay env of
           Some dl \<Rightarrow>
             (let current_delay = (if dl = - 1 then 0 else dl);
                  t = (if current_delay <s minimum_dac_queue_size t
                       then t\<lparr>minimum_dac_queue_size := current_delay\<rparr> else t);
                  delay = tdf + rt - (nt - current_delay);
                  sync_err = delay - scast (latency env);
                  amount_to_stuff = stuff_decision sync_err (tolerance env) current_delay;
                  amount_to_stuff = stuff_rate_limit amount_to_stuff (local_time_now env)
                                      (first_packet_time_to_play (ring t)) (random_value env)
              in case emit_frame env inbuf amount_to_stuff t of
                   None \<Rightarrow> None
                 | Some t \<Rightarrow>
                     Some (finish_frame slot sync_err amount_to_stuff
                             (check_loss_of_sync env (timestamp inframe) sync_err t)))
         | None \<Rightarrow>
             (if fix_volume (vol t) = 0x10000 then
                Some (finish_frame slot 0 0 (t\<lparr>played := played t @ [(inbuf, frame_size env)]\<rparr>))
              else
                case stuff_buffer_basic (vol t) (frame_size env) inbuf 0 (rand_value env) of
                  None \<Rightarrow> None
                | Some (play_samples, out, vs) \<Rightarrow>
                    (let ob = out @ drop (length out) (outbuf t)
                     in Some (finish_frame slot 0 0
                          (t\<lparr>vol := vs, outbuf := ob,
                             played := played t @ [(ob, frame_size env)]\<rparr>)))))"

text \<open>
  Every \<open>print_interval\<close> frames the extremes are reset (lines 1146 to 1181); the
  \<open>inform\<close> messages, and the floating-point averages computed only for them, are left
  out.
\<close>

definition print_statistics :: "thread_state \<Rightarrow> thread_state" where
  "print_statistics t =
     (if sint (play_number t) smod int trend_interval = 0 then
        t\<lparr>minimum_dac_queue_size := 1000000,
          maximum_buffer_occupancy := 0,
          minimum_buffer_occupancy := of_nat BUFFER_FRAMES,
          at_least_one_frame_seen := False\<rparr>
      else t)"

text \<open>
  The body of \<open>if (inbuf)\<close> (lines 913 to 1182); \<open>slot\<close> is the index of the slot
  \<open>inframe\<close> points to. The result is \<open>None\<close> where \<open>stuff_buffer_basic\<close> has no
  defined result.
\<close>

definition player_thread_step :: "frame_env \<Rightarrow> nat \<Rightarrow> thread_state \<Rightarrow> thread_state option" where
  "player_thread_step env slot t0 =
     (let inframe = audio_buffer (ring t0) slot;
          inbuf = data inframe;
          t = t0\<lparr>play_number := play_number t0 + 1\<rparr>
      in if timestamp inframe = 0 then
           Some (print_statistics
             (t\<lparr>ring := (ring t)\<lparr>last_seqno_read :=
                    (ucast (SUCCESSOR (ucast (last_seqno_read (ring t)))) :: 32 word) AND 0xffff\<rparr>,
                played := played t @ [(inbuf, frame_size env)]\<rparr>))
         else
           case frame_with_data env slot t of
             None \<Rightarrow> None
           | Some t \<Rightarrow> Some (print_statistics t))"

text \<open>
  The locals of \<open>player_thread_func\<close> before its loop. The function leaves
  \<open>statistics\<close>, \<open>previous_sync_error\<close>, \<open>previous_correction\<close> and the content of
  \<open>outbuf\<close> uninitialised; they are zero or empty here.
\<close>

definition thread_start :: "player_state \<Rightarrow> vol_state \<Rightarrow> thread_state" where
  "thread_start r v =
     \<lparr>play_number = 0, at_least_one_frame_seen = False, sync_error_out_of_bounds = 0,
      statistics = (\<lambda>i. \<lparr>sync_error = 0, correction = 0, drift = 0\<rparr>),
      number_of_statistics = 0, oldest_statistic = 0, newest_statistic = 0,
      tsum_of_sync_errors = 0, tsum_of_corrections = 0, tsum_of_insertions_and_deletions = 0,
      tsum_of_drifts = 0, previous_sync_error = 0, previous_correction = 0,
      minimum_dac_queue_size = 1000000, minimum_buffer_occupancy = of_nat BUFFER_FRAMES,
      maximum_buffer_occupancy = 0, session_corrections = 0, buffer_occupancy = 0,
      outbuf = [], played = [], ring = r, vol = v\<rparr>"

section \<open>The consumer: \<open>buffer_get_frame\<close>\<close>

text \<open>
  \<open>buffer_get_frame\<close> runs its body in a loop \<open>do ... while (wait)\<close>, sleeping on the
  condition variable between two passes, which releases \<open>ab_mutex\<close>. What a pass reads
  from outside the file is in \<open>tick_env\<close>: the clock, read once at the start of the pass,
  the fields of \<open>config\<close> (declared outside this file; taken as \<open>int\<close>), whether the back
  end has a \<open>flush\<close>, the result of its \<open>delay\<close> if it has one, the requested connection
  state, the global \<open>frame_size\<close>, and the pairs (reference timestamp, reference time) and
  (reference timestamp, remote reference time) returned by the three calls of
  \<open>get_reference_timestamp_stuff\<close>.
\<close>

record tick_env =
  tk_now :: "64 word"
  tk_timeout :: "32 word"
  tk_dont_check_timeout :: bool
  tk_requested_state :: bool
  tk_has_flush :: bool
  tk_dac_delay :: "32 word option"
  tk_reference_first :: "32 word \<times> 64 word"
  tk_reference_segment :: "32 word \<times> 64 word"
  tk_reference_play :: "32 word \<times> 64 word"
  tk_latency :: "32 word"
  tk_latency_offset :: "32 word"
  tk_buffer_desired_length :: "32 word"
  tk_frame_size :: "32 word"

text \<open>
  The timeout since the last audio packet. \<open>config.timeout\<close> is widened to
  \<open>uint64_t\<close> before the shift.
\<close>

definition tick_timeout :: "tick_env \<Rightarrow> player_state \<Rightarrow> player_state" where
  "tick_timeout env st =
     (if time_of_last_audio_packet st \<noteq> 0 \<and> \<not> shutdown_requested st
         \<and> \<not> tk_dont_check_timeout env
      then
        (let ct = (scast (tk_timeout env) :: 64 word)
         in if time_of_last_audio_packet st < tk_now env
               \<and> push_bit 32 ct \<le> tk_now env - time_of_last_audio_packet st
            then st\<lparr>output_calls := output_calls st @ [RequestShutdown],
                    shutdown_requested := True\<rparr>
            else st)
      else st)"

definition tick_connection :: "tick_env \<Rightarrow> player_state \<Rightarrow> player_state" where
  "tick_connection env st =
     (if connection_state_to_output st \<noteq> tk_requested_state env then
        (let st = st\<lparr>connection_state_to_output := tk_requested_state env\<rparr>
         in if \<not> connection_state_to_output st then st\<lparr>flush_requested := True\<rparr> else st)
      else st)"

definition output_flush :: "tick_env \<Rightarrow> player_state \<Rightarrow> player_state" where
  "output_flush env st =
     (if tk_has_flush env then st\<lparr>output_calls := output_calls st @ [OutputFlush]\<rparr> else st)"

definition tick_flush :: "tick_env \<Rightarrow> player_state \<Rightarrow> player_state" where
  "tick_flush env st =
     (if flush_requested st then
        (ab_resync (output_flush env st))
          \<lparr>first_packet_timestamp := 0,
           first_packet_time_to_play := 0,
           time_since_play_started := 0,
           flush_requested := False\<rparr>
      else st)"

text \<open>
  While buffering, with the slot of \<open>ab_read\<close> ready: the time to play the first packet
  is fixed (\<open>tick_first_packet\<close>; a late first packet calls \<open>player_flush\<close>), then silence
  is played up to that time (\<open>tick_fill_silence\<close>). \<open>dac_delay\<close> is an \<open>int32_t\<close>, widened
  with its sign in \<open>gross_frame_gap - dac_delay\<close>; \<open>max_dac_delay - dac_delay\<close> and the
  comparison with \<open>fs\<close> are unsigned; \<open>exact_frame_gap\<close> is an \<open>int64_t\<close>, narrowed to
  \<open>uint32_t\<close> by \<open>fs = exact_frame_gap\<close>. \<open>first_packet_time_to_play\<close> is an \<open>int64_t\<close>;
  its comparisons with the unsigned \<open>local_time_now\<close> and its difference from it are
  unsigned.
\<close>

definition flush_and_resync :: "tick_env \<Rightarrow> player_state \<Rightarrow> player_state" where
  "flush_and_resync env st =
     (ab_resync (output_flush env st))
       \<lparr>first_packet_timestamp := 0, first_packet_time_to_play := 0\<rparr>"

definition tick_first_packet :: "tick_env \<Rightarrow> nat \<Rightarrow> player_state \<Rightarrow> player_state" where
  "tick_first_packet env idx st0 =
     (if first_packet_timestamp st0 = 0 then
        (let reference_timestamp = fst (tk_reference_first env);
             reference_timestamp_time = snd (tk_reference_first env)
         in if reference_timestamp \<noteq> 0 then
              (let st = st0\<lparr>first_packet_timestamp := timestamp (audio_buffer st0 idx)\<rparr>;
                   delta = (ucast (first_packet_timestamp st) :: 64 word) - ucast reference_timestamp;
                   st = st\<lparr>first_packet_time_to_play :=
                          reference_timestamp_time
                            + sdiv_long
                                (push_bit 32 (delta + scast (tk_latency env)
                                                + scast (tk_latency_offset env)))
                                44100\<rparr>
               in if first_packet_time_to_play st \<le> tk_now env
                  then player_flush st (first_packet_timestamp st + 4410)
                  else st)
            else st0)
      else st0)"

definition tick_fill_silence :: "tick_env \<Rightarrow> player_state \<Rightarrow> player_state" where
  "tick_fill_silence env st0 =
     (if first_packet_time_to_play st0 \<noteq> 0 then
        (if first_packet_time_to_play st0 \<le> tk_now env then
           (flush_and_resync env st0)\<lparr>time_since_play_started := 0\<rparr>
         else
           (let dac_delay = (case tk_dac_delay env of
                               Some d \<Rightarrow> (if d = - 1 then 0 else d)
                             | None \<Rightarrow> 0);
                gross_frame_gap = drop_bit 32 ((first_packet_time_to_play st0 - tk_now env) * 44100);
                exact_frame_gap = gross_frame_gap - scast dac_delay
            in if exact_frame_gap \<le>s 0 then flush_and_resync env st0
               else
                 (let fs = (4410 :: 32 word);
                      fs = (if 4410 - dac_delay < fs then 4410 - dac_delay else fs);
                      ends = (exact_frame_gap \<le>s ucast fs
                              \<or> exact_frame_gap \<le>s scast (tk_frame_size env * 2));
                      fs = (if ends then ucast exact_frame_gap else fs);
                      st = (if ends then st0\<lparr>ab_buffering := False\<rparr> else st0);
                      st = st\<lparr>output_calls := output_calls st @ [PlaySilence fs]\<rparr>
                  in if \<not> ab_buffering st
                     then st\<lparr>play_segment_reference_frame := fst (tk_reference_segment env),
                             play_segment_reference_frame_remote_time :=
                               snd (tk_reference_segment env)\<rparr>
                     else st)))
      else st0)"

definition tick_buffering :: "tick_env \<Rightarrow> player_state \<Rightarrow> player_state" where
  "tick_buffering env st =
     (if ready (audio_buffer st (BUFIDX (ab_read st))) \<and> ab_buffering st
      then tick_fill_silence env (tick_first_packet env (BUFIDX (ab_read st)) st)
      else st)"

text \<open>
  \<open>do_wait\<close>: it is cleared only for a ready frame with a nonzero timestamp whose time to
  play has come. \<open>time_to_play\<close> is an \<open>int64_t\<close>, compared with the unsigned
  \<open>local_time_now\<close> as unsigned.
\<close>

definition tick_do_wait :: "tick_env \<Rightarrow> nat \<Rightarrow> player_state \<Rightarrow> bool" where
  "tick_do_wait env idx st =
     (if ab_synced st \<and> ready (audio_buffer st idx) \<and> timestamp (audio_buffer st idx) \<noteq> 0 then
        (let reference_timestamp = fst (tk_reference_play env);
             reference_timestamp_time = snd (tk_reference_play env)
         in if reference_timestamp \<noteq> 0 then
              (let packet_timestamp = timestamp (audio_buffer st idx);
                   delta = (ucast packet_timestamp :: 64 word) - ucast reference_timestamp;
                   offset = (scast (tk_latency env) :: 64 word) + scast (tk_latency_offset env)
                              - scast (tk_buffer_desired_length env);
                   net_offset = delta + offset;
                   time_to_play =
                     (if 0 \<le>s net_offset
                      then reference_timestamp_time + sdiv_long (push_bit 32 net_offset) 44100
                      else reference_timestamp_time - sdiv_long (push_bit 32 (- net_offset)) 44100)
               in \<not> time_to_play \<le> tk_now env)
            else True)
      else True)"

text \<open>
  The last-chance resend loop \<open>for (i = 8; i < seq_diff(ab_read, ab_write) / 2; i = i * 2)\<close>.
  The bound is below \<open>2 ^ 15\<close>, so the \<open>int\<close> \<open>i\<close> does not overflow and stays positive; the
  test \<open>0 < i\<close> only records that, for the termination proof.
\<close>

function resend_scan :: "int \<Rightarrow> int \<Rightarrow> player_state \<Rightarrow> player_state" where
  "resend_scan i lim st =
     (if 0 < i \<and> i < lim then
        (let next = seq_sum (ab_read st) (of_int i)
         in resend_scan (i * 2) lim
              (if \<not> ready (audio_buffer st (BUFIDX next))
               then st\<lparr>resend_log := resend_log st @ [(next, 1)],
                       resend_requests := resend_requests st + 1\<rparr>
               else st))
      else st)"
  by pat_completeness auto
termination
  by (relation "measure (\<lambda>(i, lim, st). nat (lim - i))") auto

declare resend_scan.simps [simp del]

text \<open>
  The release of the frame after the loop: a slot that is not ready is counted as
  missing and handed out as \<open>frame_size\<close> frames of silence with timestamp 0.
\<close>

definition tick_release :: "tick_env \<Rightarrow> nat \<Rightarrow> player_state \<Rightarrow> player_state" where
  "tick_release env idx st0 =
     (let st = (if \<not> ab_buffering st0
                then resend_scan 8
                       (sint (seq_diff (ab_read st0) (ab_read st0) (ab_write st0)) sdiv 2) st0
                else st0);
          curframe = audio_buffer st idx;
          n = 2 * nat (sint (tk_frame_size env));
          st = (if \<not> ready curframe
                then st\<lparr>missing_packets := missing_packets st + 1,
                        audio_buffer := (audio_buffer st)
                          (idx := curframe\<lparr>data := replicate n 0 @ drop n (data curframe),
                                           timestamp := 0\<rparr>)\<rparr>
                else st)
      in st\<lparr>audio_buffer := (audio_buffer st)(idx := (audio_buffer st idx)\<lparr>ready := False\<rparr>),
            ab_read := SUCCESSOR (ab_read st)\<rparr>)"

section \<open>The threads\<close>

text \<open>
  \<open>player_put_packet\<close> and a pass of \<open>buffer_get_frame\<close> hold \<open>ab_mutex\<close> from their
  first statement to their last, so neither runs inside the other. \<open>player_flush\<close>
  takes \<open>flush_mutex\<close> only, and \<open>player_stop\<close> takes no mutex before it sets
  \<open>please_stop\<close>: they run at any point of the other two, outside the two sections of
  the pass that hold \<open>flush_mutex\<close> themselves (lines 431 to 433 and 437 to 447). The
  variables they write are \<open>flush_requested\<close>, \<open>flush_rtp_timestamp\<close>,
  \<open>play_segment_reference_frame\<close> and \<open>please_stop\<close>. So the pass and
  \<open>player_put_packet\<close> are cut into segments, each ending before the next statement
  whose outcome a write to one of these four variables can change, and before each
  assignment to one of them that follows a test of it; a segment is one step, and a
  write that lands inside a segment gives the same state as the same write before or
  after it. A condition is taken to be evaluated in one step.

  The points of the pass between two segments, with the local variables that are live
  there (\<open>flush_limit\<close>, and the index of the slot \<open>curframe\<close> points to):
  \<^item> \<open>Idle\<close>: not in a pass, \<open>ab_mutex\<close> not held by the player thread;
  \<^item> \<open>AtLoop\<close>: at the top of the body of the inner loop, line 451;
  \<^item> \<open>AtReset\<close>: at the condition of line 476, in the branch \<open>curframe->ready\<close> taken at
    line 452;
  \<^item> \<open>AtClear\<close>: at the assignment of line 479;
  \<^item> \<open>AtTest\<close>: at the condition of the inner loop, line 481;
  \<^item> \<open>AtBuffering\<close>: after the inner loop, line 483;
  \<^item> \<open>AtWait\<close>: at line 630;
  \<^item> \<open>AtExit\<close>: after the outer loop, line 692.
\<close>

datatype pass_pc =
    Idle
  | AtLoop "32 word"
  | AtReset "32 word" nat
  | AtClear "32 word" nat
  | AtTest "32 word" nat
  | AtBuffering
  | AtWait nat
  | AtExit nat

text \<open>
  Lines 408 to 449: the clock, the timeout, the connection state, the flush request, and
  the test of \<open>ab_synced\<close>. Where the ring is not synced the pass goes on at line 630
  with \<open>curframe\<close> as an earlier pass left it; it is not read there, since each use comes
  after a test of \<open>ab_synced\<close>, which only \<open>player_put_packet\<close> sets.
\<close>

definition pass_head :: "tick_env \<Rightarrow> player_state \<Rightarrow> pass_pc \<times> player_state" where
  "pass_head env st0 =
     (let st = tick_flush env (tick_connection env (tick_timeout env st0))
      in (if ab_synced st then AtLoop 0 else AtWait (BUFIDX (ab_read st)), st))"

text \<open>
  The body of the inner loop \<open>do ... while (flush_rtp_timestamp != 0 && flush_limit <= 8820
  && curframe->ready == 0)\<close>, which drops flushed frames: lines 451 to 475
  (\<open>drain_drop\<close>), the condition of lines 476 to 478 (\<open>drain_reset\<close>), the assignment of
  line 479 (\<open>flush_clear\<close>), and the condition of the loop (\<open>drain_test\<close>).
  The loop has no exit while the slot of \<open>ab_read\<close> is not ready, \<open>flush_rtp_timestamp\<close>
  is not 0 and no other thread changes it.
\<close>

definition drain_drop :: "32 word \<Rightarrow> player_state \<Rightarrow> pass_pc \<times> player_state" where
  "drain_drop flush_limit st0 =
     (let idx = BUFIDX (ab_read st0);
          curframe = audio_buffer st0 idx
      in if ready curframe then
           (let st = (if sequence_number curframe \<noteq> ab_read st0 then
                        (if BUFIDX (sequence_number curframe) = BUFIDX (ab_read st0) then
                           (if seq_order (ab_read st0) (ab_read st0) (sequence_number curframe)
                            then st0\<lparr>ab_read := sequence_number curframe\<rparr> else st0)
                         else st0)
                      else st0)
            in if flush_rtp_timestamp st \<noteq> 0
                  \<and> (timestamp curframe = flush_rtp_timestamp st
                       \<or> seq32_order (timestamp curframe) (flush_rtp_timestamp st))
               then (AtReset (flush_limit + 1) idx,
                     st\<lparr>audio_buffer := (audio_buffer st)(idx := curframe\<lparr>ready := False\<rparr>),
                        ab_read := SUCCESSOR (ab_read st)\<rparr>)
               else (AtReset flush_limit idx, st))
         else (AtTest flush_limit idx, st0))"

definition drain_reset :: "32 word \<Rightarrow> nat \<Rightarrow> player_state \<Rightarrow> pass_pc" where
  "drain_reset flush_limit idx st =
     (if flush_rtp_timestamp st \<noteq> 0
         \<and> \<not> seq32_order (timestamp (audio_buffer st idx)) (flush_rtp_timestamp st)
      then AtClear flush_limit idx else AtTest flush_limit idx)"

definition flush_clear :: "player_state \<Rightarrow> player_state" where
  "flush_clear st = st\<lparr>flush_rtp_timestamp := 0\<rparr>"

definition drain_test :: "32 word \<Rightarrow> nat \<Rightarrow> player_state \<Rightarrow> pass_pc" where
  "drain_test flush_limit idx st =
     (if flush_rtp_timestamp st \<noteq> 0 \<and> flush_limit \<le> 8820 \<and> \<not> ready (audio_buffer st idx)
      then AtLoop flush_limit else AtBuffering)"

text \<open>
  Lines 630 to 690: the pass waits, which ends it and releases \<open>ab_mutex\<close>, or leaves
  the outer loop. Lines 692 to 723: the return of 0 when \<open>please_stop\<close> is set, or the
  release of the frame.
\<close>

definition pass_wait :: "tick_env \<Rightarrow> nat \<Rightarrow> player_state \<Rightarrow> pass_pc" where
  "pass_wait env idx st =
     (let do_wait = tick_do_wait env idx st;
          wait = ((ab_buffering st \<or> do_wait \<or> \<not> ab_synced st) \<and> \<not> please_stop st)
      in if wait then Idle else AtExit idx)"

definition pass_exit :: "tick_env \<Rightarrow> nat \<Rightarrow> player_state \<Rightarrow> player_state" where
  "pass_exit env idx st = (if please_stop st then st else tick_release env idx st)"

text \<open>One segment of the pass, from the point \<open>pc\<close>.\<close>

definition pass_step :: "tick_env \<Rightarrow> pass_pc \<Rightarrow> player_state \<Rightarrow> pass_pc \<times> player_state" where
  "pass_step env pc st =
     (case pc of
        Idle \<Rightarrow> pass_head env st
      | AtLoop flush_limit \<Rightarrow> drain_drop flush_limit st
      | AtReset flush_limit idx \<Rightarrow> (drain_reset flush_limit idx st, st)
      | AtClear flush_limit idx \<Rightarrow> (AtTest flush_limit idx, flush_clear st)
      | AtTest flush_limit idx \<Rightarrow> (drain_test flush_limit idx st, st)
      | AtBuffering \<Rightarrow> (AtWait (BUFIDX (ab_read st)), tick_buffering env st)
      | AtWait idx \<Rightarrow> (pass_wait env idx st, st)
      | AtExit idx \<Rightarrow> (Idle, pass_exit env idx st))"

text \<open>
  \<open>player_put_packet\<close> in segments: lines 297 to 310, up to the test of the flush
  filter (\<open>put_enter\<close>; the first component of the result says whether the packet goes on
  to line 315), the condition of lines 315 to 317 (\<open>put_reset\<close>), the assignment of line
  318 (\<open>flush_clear\<close>), and lines 320 to 364 (\<open>put_ring\<close>). The points between them are
  \<open>PutTest\<close> (line 315), \<open>PutClear\<close> (line 318) and \<open>PutRing\<close> (line 320), each with the
  arguments of the call; at \<open>PutIdle\<close> the thread is not in \<open>player_put_packet\<close>.
\<close>

definition put_enter :: "player_state \<Rightarrow> 64 word \<Rightarrow> 32 word \<Rightarrow> bool \<times> player_state" where
  "put_enter st0 now ts =
     (let st = st0\<lparr>packet_count := packet_count st0 + 1, time_of_last_audio_packet := now\<rparr>
      in (connection_state_to_output st
            \<and> \<not> (flush_rtp_timestamp st \<noteq> 0 \<and>
                  (ts = flush_rtp_timestamp st \<or> seq32_order ts (flush_rtp_timestamp st))),
          st))"

definition put_reset :: "player_state \<Rightarrow> 32 word \<Rightarrow> bool" where
  "put_reset st ts =
     (flush_rtp_timestamp st \<noteq> 0 \<and> \<not> seq32_order ts (flush_rtp_timestamp st))"

definition put_ring ::
    "player_state \<Rightarrow> seq_t \<Rightarrow> 32 word \<Rightarrow> 16 word list \<Rightarrow> player_state" where
  "put_ring st0 seqno ts pcm =
     (let st = (if \<not> ab_synced st0
                then st0\<lparr>ab_write := seqno, ab_read := seqno, ab_synced := True\<rparr> else st0);
          (abuf, st) = put_classify st seqno
      in case abuf of
           None \<Rightarrow> st
         | Some i \<Rightarrow>
             st\<lparr>audio_buffer := (audio_buffer st)
                   (i := (audio_buffer st i)
                           \<lparr>data := alac_decode (data (audio_buffer st i)) pcm,
                            ready := True,
                            timestamp := ts,
                            sequence_number := seqno\<rparr>)\<rparr>)"

datatype put_pc =
    PutIdle
  | PutTest seq_t "32 word" "16 word list"
  | PutClear seq_t "32 word" "16 word list"
  | PutRing seq_t "32 word" "16 word list"

text \<open>
  \<open>player_flush\<close> in two steps: the section under \<open>flush_mutex\<close>, then the assignment
  to \<open>play_segment_reference_frame\<close>. \<open>player_stop\<close> sets \<open>please_stop\<close> and then waits
  for the player thread.
\<close>

definition flush_request :: "player_state \<Rightarrow> 32 word \<Rightarrow> player_state" where
  "flush_request st ts = st\<lparr>flush_requested := True, flush_rtp_timestamp := ts\<rparr>"

definition flush_finish :: "player_state \<Rightarrow> player_state" where
  "flush_finish st = st\<lparr>play_segment_reference_frame := 0\<rparr>"


text \<open>
  The state of the system: the variables of the file, the point the player thread has
  reached in its pass and the values the pass reads from outside, the point the thread
  that delivers packets has reached in \<open>player_put_packet\<close>, and the number of calls of
  \<open>player_flush\<close> that have left the section under \<open>flush_mutex\<close> and not yet assigned
  \<open>play_segment_reference_frame\<close>.
\<close>

record system =
  shared :: player_state
  player_pc :: pass_pc
  player_env :: tick_env
  packet_pc :: put_pc
  flush_calls :: nat



definition sys_pass_next :: "system \<Rightarrow> system" where
  "sys_pass_next s =
     s\<lparr>shared := snd (pass_step (player_env s) (player_pc s) (shared s)),
       player_pc := fst (pass_step (player_env s) (player_pc s) (shared s))\<rparr>"


definition sys_put_next :: "system \<Rightarrow> system" where
  "sys_put_next s =
     (case packet_pc s of
        PutIdle \<Rightarrow> s
      | PutTest seqno ts pcm \<Rightarrow>
          s\<lparr>packet_pc := (if put_reset (shared s) ts then PutClear seqno ts pcm
                            else PutRing seqno ts pcm)\<rparr>
      | PutClear seqno ts pcm \<Rightarrow>
          s\<lparr>shared := flush_clear (shared s), packet_pc := PutRing seqno ts pcm\<rparr>
      | PutRing seqno ts pcm \<Rightarrow>
          s\<lparr>shared := put_ring (shared s) seqno ts pcm, packet_pc := PutIdle\<rparr>)"

definition sys_flush_request :: "32 word \<Rightarrow> system \<Rightarrow> system" where
  "sys_flush_request ts s =
     s\<lparr>shared := flush_request (shared s) ts, flush_calls := flush_calls s + 1\<rparr>"




section \<open>Reachable states\<close>





section \<open>Facts about words\<close>

lemma and_ffff32: "(w :: 32 word) AND 0xffff = take_bit 16 w"
  by (simp add: take_bit_eq_mask mask_eq_exp_minus_1)

lemma uint_ucast_16_32: "uint (ucast (x :: 16 word) :: 32 word) = uint x"
  by (simp add: uint_up_ucast is_up)

lemma uint16_bounds: "0 \<le> uint (x :: 16 word) \<and> uint x < 65536"
  using uint_lt2p [of x] by simp

lemmas take_bit_int_mod = take_bit_eq_mod [where 'a = int]

lemma int_mod_unique: "0 \<le> r \<Longrightarrow> r < m \<Longrightarrow> a = q * m + r \<Longrightarrow> a mod m = (r::int)"
  by simp

lemma mod_neg_shift: "- m \<le> a \<Longrightarrow> a < 0 \<Longrightarrow> a mod m = a + (m::int)"
  by (rule int_mod_unique [where q = "-1"]) simp_all

lemma take_bit16_ucast: "take_bit 16 (ucast (x :: 16 word) :: 32 word) = ucast x"
  apply (rule word_uint_eq_iff [THEN iffD2])
  apply (simp only: unsigned_take_bit_eq uint_ucast_16_32)
  using uint16_bounds [of x] by (simp add: take_bit_int_mod)

lemma SUCCESSOR_plus: "SUCCESSOR x = x + 1"
  unfolding SUCCESSOR_def Let_def and_ffff32 take_bit16_ucast
  apply (rule word_uint_eq_iff [THEN iffD2])
  using uint16_bounds [of x]
  apply (simp add: unsigned_ucast_eq unsigned_take_bit_eq uint_word_ariths uint_ucast_16_32
      take_bit_int_mod)
  done

lemma PREDECESSOR_minus: "PREDECESSOR x = x - 1"
  unfolding PREDECESSOR_def Let_def and_ffff32 take_bit16_ucast
  apply (rule word_uint_eq_iff [THEN iffD2])
  using uint16_bounds [of x]
  apply (simp add: unsigned_ucast_eq unsigned_take_bit_eq uint_word_ariths uint_ucast_16_32
      take_bit_int_mod)
  using mod_add_self2 [of "uint x - 1" 65536] apply (simp add: algebra_simps)
  done

lemma ordinate_t:
  "uint (((ucast (x :: 16 word) :: 32 word) + 0x10000 - ucast (r :: 16 word)) AND 0xffff)
     = uint (x - r)"
proof -
  have "(uint x + 65536 - uint r) mod 4294967296 = uint x + 65536 - uint r"
    using uint16_bounds [of x] uint16_bounds [of r]
    by (intro mod_pos_pos_trivial) linarith+
  moreover have "(uint x + 65536 - uint r) mod 65536 = (uint x - uint r) mod 65536"
    using mod_add_self2 [of "uint x - uint r" 65536] by (simp add: algebra_simps)
  ultimately show ?thesis
    unfolding and_ffff32
    using uint16_bounds [of x]
    by (simp add: unsigned_take_bit_eq uint_word_ariths uint_ucast_16_32 take_bit_int_mod)
qed

lemma sint32_small: "uint (t :: 32 word) < 65536 \<Longrightarrow> sint t = uint t"
  apply (simp add: sint_uint take_bit_int_mod)
  apply (simp add: signed_take_bit_eq_take_bit_shift take_bit_int_mod)
  done

lemma sle_32767: "uint (t :: 32 word) < 65536 \<Longrightarrow> (32767 \<le>s t) = (32767 \<le> uint t)"
  by (simp add: word_sle_eq sint32_small)

lemma sint32_sub_65536:
  assumes "uint (t :: 32 word) < 65536"
  shows "sint (t - 65536) = uint t - 65536"
proof -
  have a: "(uint t - 65536) mod 4294967296 = uint t - 65536 + 4294967296"
    using assms uint_ge_0 [of t] by (intro mod_neg_shift) simp_all
  have b: "(uint t - 65536 + 4294967296 + 2147483648) mod 4294967296
             = uint t - 65536 + 2147483648"
    using assms uint_ge_0 [of t] by (intro int_mod_unique [where q = 1]) simp_all
  show ?thesis
    using a b
    apply (simp add: sint_uint take_bit_int_mod uint_word_ariths)
    apply (simp add: signed_take_bit_eq_take_bit_shift take_bit_int_mod)
    done
qed

text \<open>What \<open>ORDINATE\<close> computes, on the integers.\<close>

lemma ORDINATE_sint:
  "sint (ORDINATE r x)
     = (if 32767 \<le> uint (x - r) then uint (x - r) - 65536 else uint (x - r))"
proof -
  let ?t = "((ucast x :: 32 word) + 0x10000 - ucast r) AND 0xffff"
  have t: "uint ?t = uint (x - r)" by (rule ordinate_t)
  have b: "uint ?t < 65536" using uint16_bounds [of "x - r"] t by simp
  show ?thesis
    unfolding ORDINATE_def Let_def and_ffff32 take_bit16_ucast
    using sle_32767 [OF b] sint32_small [OF b] sint32_sub_65536 [OF b] t
    by (simp add: and_ffff32)
qed

lemma ORDINATE_range: "- 32769 \<le> sint (ORDINATE r x) \<and> sint (ORDINATE r x) < 32767"
proof -
  define k where "k = uint (x - r)"
  have "0 \<le> k" "k < 65536" using uint16_bounds [of "x - r"] by (simp_all add: k_def)
  then show ?thesis unfolding ORDINATE_sint k_def [symmetric] by simp
qed

lemma sint32_diff:
  "- 65536 \<le> sint (a :: 32 word) \<Longrightarrow> sint a < 65536 \<Longrightarrow>
   - 65536 \<le> sint (b :: 32 word) \<Longrightarrow> sint b < 65536 \<Longrightarrow> sint (a - b) = sint a - sint b"
  by (simp add: sint_word_ariths signed_take_bit_int_eq_self)

lemma seq_diff_sint: "sint (seq_diff r a b) = sint (ORDINATE r b) - sint (ORDINATE r a)"
  unfolding seq_diff_def Let_def
  using ORDINATE_range [of r a] ORDINATE_range [of r b]
  by (intro sint32_diff) linarith+

lemma sint16_uint:
  "sint (w :: 16 word) = (if 32768 \<le> uint w then uint w - 65536 else uint w)"
proof -
  define k where "k = uint w"
  have b: "0 \<le> k" "k < 65536" using uint16_bounds [of w] by (simp_all add: k_def)
  have "32768 \<le> k \<Longrightarrow> (k + 32768) mod 65536 = k - 32768"
    using b by (intro int_mod_unique [where q = 1]) simp_all
  moreover have "\<not> 32768 \<le> k \<Longrightarrow> (k + 32768) mod 65536 = k + 32768"
    using b by (intro mod_pos_pos_trivial) simp_all
  ultimately show ?thesis
    using b unfolding sint_uint k_def [symmetric]
    by (simp add: signed_take_bit_eq_take_bit_shift take_bit_int_mod)
qed


lemma sdiv2_bounds:
  "- 65536 \<le> k \<Longrightarrow> k \<le> 65534 \<Longrightarrow> - 32768 \<le> k sdiv 2 \<and> k sdiv (2::int) \<le> 32767"
  apply (cases "0 \<le> k")
   apply (simp_all add: signed_divide_int_def sgn_if)
   apply arith+
  done

lemma sint16_bounds: "- 32768 \<le> sint (a :: 16 word) \<and> sint a < 32768"
  using sint_ge [of a] sint_lt [of a] by simp

lemma sint_scast_16_64: "sint (scast (a :: 16 word) :: 64 word) = sint a"
  by (simp add: sint_up_scast is_up)

section \<open>Facts about the ring\<close>

lemma seq_sum_plus: "seq_sum a b = a + b"
  unfolding seq_sum_def Let_def and_ffff32
  apply (rule word_uint_eq_iff [THEN iffD2])
  using uint16_bounds [of a] uint16_bounds [of b]
  apply (simp add: unsigned_ucast_eq unsigned_take_bit_eq uint_word_ariths uint_ucast_16_32
      take_bit_int_mod)
  done

lemma sint32_pos_diff:
  "- 65536 \<le> sint (a :: 32 word) \<Longrightarrow> sint a < 65536 \<Longrightarrow>
   - 65536 \<le> sint (b :: 32 word) \<Longrightarrow> sint b < 65536 \<Longrightarrow> (0 <s a - b) = (sint b < sint a)"
  by (simp add: word_sless_alt sint32_diff)

lemma seq_order_sint: "seq_order r a b = (sint (ORDINATE r a) < sint (ORDINATE r b))"
  unfolding seq_order_def Let_def
  using ORDINATE_range [of r a] ORDINATE_range [of r b]
  by (intro sint32_pos_diff) linarith+


lemma uint_ucast_32_64: "uint (ucast (x :: 32 word) :: 64 word) = uint x"
  by (simp add: uint_up_ucast is_up)

lemma and_ffffffff64: "(ucast (a :: 32 word) :: 64 word) AND 0xffffffff = ucast a"
proof -
  have m: "(0xffffffff :: 64 word) = mask 32" by (simp add: mask_eq_exp_minus_1)
  have "take_bit 32 (ucast a :: 64 word) = ucast a"
    apply (rule word_uint_eq_iff [THEN iffD2])
    apply (simp only: unsigned_take_bit_eq uint_ucast_32_64)
    using uint_lt2p [of a] by (simp add: take_bit_int_mod)
  then show ?thesis unfolding m by (simp add: take_bit_eq_mask)
qed

lemma bit31_diff64:
  "bit ((ucast (b :: 32 word) :: 64 word) - ucast (a :: 32 word)) 31 = bit (b - a) 31"
proof -
  let ?C = "(ucast b :: 64 word) - ucast a"
  have "take_bit 32 (uint ?C) = uint (b - a)"
    unfolding take_bit_int_mod uint_word_ariths uint_ucast_32_64
    by (simp add: mod_mod_cancel)
  then have "bit (uint ?C) 31 = bit (uint (b - a)) 31"
    using bit_take_bit_iff [of 32 "uint ?C" 31] by simp
  then show ?thesis by (simp add: bit_uint_iff)
qed

lemma seq32_order_sint: "seq32_order a b = (0 < sint (b - a))"
proof -
  have p: "(0x80000000 :: 64 word) = 2 ^ 31" by simp
  have z: "(sint (b - a) = 0) = (a = b)"
    by (auto simp add: signed_eq_0_iff)
  have "(((ucast b :: 64 word) - ucast a) AND 0x80000000 = 0) = (0 \<le> sint (b - a))"
    unfolding p and_exp_eq_0_iff_not_bit bit31_diff64
    using bit_last_iff [of "b - a"] by auto
  then show ?thesis
    unfolding seq32_order_def Let_def and_ffffffff64
    using z by auto
qed

lemma seq32_order_asym:
  assumes "seq32_order a b" shows "\<not> seq32_order b a \<and> a \<noteq> b"
proof -
  define w where "w = b - a"
  have e: "a - b = - w" by (simp add: w_def)
  have p: "0 < sint w" using assms by (simp add: seq32_order_sint w_def)
  have "sint (- w) = - sint w"
    using p sint_lt [of w]
    by (simp add: sint_word_ariths signed_take_bit_int_eq_self)
  moreover have "a \<noteq> b" using p by (auto simp add: w_def)
  ultimately show ?thesis using p unfolding seq32_order_sint e by simp
qed

lemma seq32_order_succ: "seq32_order a (a + 1)"
  by (simp add: seq32_order_sint)


lemma zero_slots_at:
  "zero_slots n i abw buf j =
     (if \<exists>m<n. BUFIDX (abw + of_nat (i + m)) = j
      then (buf j)\<lparr>ready := False, timestamp := 0, sequence_number := 0\<rparr>
      else buf j)"
proof (induction n arbitrary: i buf)
  case 0
  then show ?case by simp
next
  case (Suc n)
  have split: "(\<exists>m<Suc n. BUFIDX (abw + of_nat (i + m)) = j)
      = (BUFIDX (abw + of_nat i) = j \<or> (\<exists>m<n. BUFIDX (abw + of_nat (Suc i + m)) = j))"
    apply (rule iffI)
     apply (erule exE)
    subgoal for m by (cases m) auto
    apply (erule disjE)
     apply (rule exI [of _ 0], simp)
    apply (erule exE)
    subgoal for m by (rule exI [of _ "Suc m"]) simp
    done
  show ?case
    unfolding split
    by (auto simp add: Suc.IH seq_sum_plus simp del: of_nat_add of_nat_Suc)
qed


lemma sint32_succ: "- 65536 \<le> sint (a :: 32 word) \<Longrightarrow> sint a < 65536 \<Longrightarrow> sint (a + 1) = sint a + 1"
  by (simp add: sint_word_ariths signed_take_bit_int_eq_self)

lemma uint_pred16: "uint (x - 1 :: 16 word) = (if uint x = 0 then 65535 else uint x - 1)"
  using uint_sub_if' [of x 1]
  apply simp
  using uint_ge_0 [of x] by linarith

lemma uint_diff16:
  "uint (s - w :: 16 word) = (if uint (w - r) \<le> uint (s - r) then uint (s - r) - uint (w - r)
                              else uint (s - r) - uint (w - r) + 65536)"
proof -
  have "s - w = (s - r) - (w - r)" by simp
  then show ?thesis using uint_sub_if' [of "s - r" "w - r"] by simp
qed

lemma gap_value:
  assumes "seq_order r w s"
  shows "sint (seq_diff r w (PREDECESSOR s) + 1) = uint (s - w) \<and> 0 < uint (s - w)"
proof -
  define kw where "kw = uint (w - r)"
  define ks where "ks = uint (s - r)"
  have b: "0 \<le> kw" "kw < 65536" "0 \<le> ks" "ks < 65536"
    using uint16_bounds [of "w - r"] uint16_bounds [of "s - r"] by (simp_all add: kw_def ks_def)
  have e: "s - 1 - r = (s - r) - 1" by simp
  have ord: "(if 32767 \<le> kw then kw - 65536 else kw) < (if 32767 \<le> ks then ks - 65536 else ks)"
    using assms unfolding seq_order_sint ORDINATE_sint kw_def ks_def .
  have g: "sint (seq_diff r w (s - 1) + 1) = sint (seq_diff r w (s - 1)) + 1"
    using ORDINATE_range [of r w] ORDINATE_range [of r "s - 1"]
    by (intro sint32_succ) (simp_all add: seq_diff_sint)
  show ?thesis
    unfolding PREDECESSOR_minus g seq_diff_sint ORDINATE_sint e uint_pred16 uint_diff16 [of s w r]
      kw_def [symmetric] ks_def [symmetric]
    using b ord by (simp split: if_splits)
qed

lemma gap_word:
  assumes "seq_order r w s"
  shows "seq_diff r w (PREDECESSOR s) + 1 = of_nat (unat (s - w))"
    and "nat (sint (seq_diff r w (PREDECESSOR s) + 1)) = unat (s - w)"
    and "0 < unat (s - w)"
proof -
  let ?g = "seq_diff r w (PREDECESSOR s) + 1"
  have v: "sint ?g = uint (s - w)" "0 < uint (s - w)" using gap_value [OF assms] by simp_all
  have "?g = word_of_int (sint ?g)" by simp
  also have "\<dots> = word_of_int (uint (s - w))" by (simp only: v)
  also have "\<dots> = of_nat (unat (s - w))" by simp
  finally show "?g = of_nat (unat (s - w))" .
  show "nat (sint ?g) = unat (s - w)" by (simp only: v) simp
  have "unat (s - w) = nat (uint (s - w))" by simp
  then show "0 < unat (s - w)" using v(2) by linarith
qed

lemma abuf_all_fields:
  "(r :: abuf_t)\<lparr>data := d, ready := b, timestamp := t, sequence_number := q\<rparr>
     = \<lparr>ready = b, timestamp = t, sequence_number = q, data = d\<rparr>"
  by (cases r) simp

text \<open>The state after a packet classified as newer than expected.\<close>

lemma put_packet_ahead_state:
  assumes "connection_state_to_output st" "flush_rtp_timestamp st = 0" "ab_synced st"
    and "ab_write st \<noteq> seqno" "seq_order (ab_read st) (ab_write st) seqno"
  shows "player_put_packet st now seqno ts pcm =
     (let buf = zero_slots (unat (seqno - ab_write st)) 0 (ab_write st) (audio_buffer st)
      in st\<lparr>packet_count := packet_count st + 1,
            time_of_last_audio_packet := now,
            audio_buffer := buf(BUFIDX seqno :=
               \<lparr>ready = True, timestamp = ts, sequence_number = seqno,
                data = alac_decode (data (buf (BUFIDX seqno))) pcm\<rparr>),
            resend_log := resend_log st @ [(ab_write st, of_nat (unat (seqno - ab_write st)))],
            resend_requests := resend_requests st + 1,
            ab_write := SUCCESSOR seqno\<rparr>)"
  using assms gap_word(1,2) [OF assms(5)]
  by (simp add: player_put_packet_def put_classify_def Let_def abuf_all_fields)


section \<open>Facts about stuffing\<close>

lemma ucast_scast_16: "(ucast (scast (x :: 16 word) :: 64 word) :: 16 word) = x"
  by (rule bit_word_eqI) (auto simp add: bit_simps)

lemma sint_scast_mul: "sint ((scast (x :: 16 word) :: 64 word) * 65536) = sint x * 65536"
proof -
  define k where "k = sint x"
  have b: "- 32768 \<le> k" "k < 32768" using sint16_bounds [of x] by (simp_all add: k_def)
  have "sint ((scast x :: 64 word) * 65536) = signed_take_bit 63 (k * 65536)"
    by (simp add: sint_word_ariths sint_scast_16_64 k_def)
  also have "\<dots> = k * 65536"
    using b by (intro signed_take_bit_int_eq_self) simp_all
  finally show ?thesis by (simp add: k_def)
qed

lemma full_volume_shift:
  "(ucast (signed_drop_bit 16 ((scast (x :: 16 word) :: 64 word) * 65536)) :: 16 word) = x"
proof -
  have "sint (signed_drop_bit 16 ((scast x :: 64 word) * 65536)) = sint x"
    by (simp add: sint_signed_drop_bit_eq sint_scast_mul drop_bit_eq_div)
  then have "signed_drop_bit 16 ((scast x :: 64 word) * 65536) = scast x"
    by (simp add: word_eq_iff_signed [where 'a = int] sint_scast_16_64)
  then show ?thesis by (simp add: ucast_scast_16)
qed

lemma dithered_vol_full: "fix_volume vs = 0x10000 \<Longrightarrow> dithered_vol vs x = (x, vs)"
  by (simp add: dithered_vol_def Let_def full_volume_shift word_sless_alt)


lemma take_drop_two:
  assumes "Suc (Suc ip) \<le> length inp"
  shows "take (Suc (Suc m)) (drop ip inp) = inp ! ip # inp ! Suc ip # take m (drop (Suc (Suc ip)) inp)"
proof -
  have "drop ip inp = inp ! ip # drop (Suc ip) inp"
    using assms by (simp add: Cons_nth_drop_Suc)
  also have "drop (Suc ip) inp = inp ! Suc ip # drop (Suc (Suc ip)) inp"
    using assms by (simp add: Cons_nth_drop_Suc)
  finally show ?thesis by simp
qed

lemma copy_samples_full:
  "fix_volume vs = 0x10000 \<Longrightarrow> ip + 2 * n \<le> length inp \<Longrightarrow>
   copy_samples n vs inp ip out = Some (vs, ip + 2 * n, out @ take (2 * n) (drop ip inp))"
proof (induction n arbitrary: ip out)
  case 0
  then show ?case by simp
next
  case (Suc n)
  then show ?case by (simp add: dithered_vol_full take_drop_two)
qed

text \<open>The copy loop, at any volume: it succeeds inside the buffer and appends \<open>2n\<close> shorts.\<close>

lemma copy_samples_Some:
  "ip + 2 * n \<le> length inp \<Longrightarrow>
   \<exists>vs' out'. copy_samples n vs inp ip out = Some (vs', ip + 2 * n, out @ out')
               \<and> length out' = 2 * n"
proof (induction n arbitrary: vs ip out)
  case 0
  then show ?case by simp
next
  case (Suc n)
  obtain l vs1 where a: "dithered_vol vs (inp ! ip) = (l, vs1)" by (cases "dithered_vol vs (inp ! ip)")
  obtain r vs2 where b: "dithered_vol vs1 (inp ! (ip + 1)) = (r, vs2)"
    by (cases "dithered_vol vs1 (inp ! (ip + 1))")
  have "ip + 2 + 2 * n \<le> length inp" using Suc.prems by simp
  from Suc.IH [OF this, of vs2 "out @ [l, r]"]
  obtain vs' out' where c: "copy_samples n vs2 inp (ip + 2) (out @ [l, r])
        = Some (vs', ip + 2 + 2 * n, (out @ [l, r]) @ out')" "length out' = 2 * n"
    by blast
  show ?case
    apply (rule exI [of _ vs'], rule exI [of _ "[l, r] @ out'"])
    using Suc.prems a b c by simp
qed

lemma smod_pos: "0 \<le> r \<Longrightarrow> 0 < m \<Longrightarrow> r smod m = r mod (m :: int)"
  by (simp add: signed_modulo_int_def sgn_if)

lemma vol_initial_full: "fix_volume (vol_initial u) = 0x10000"
  by (simp add: vol_initial_def)

lemma shortmean_0_10: "fst (shortmean 0 10) = 5"
  by (simp add: shortmean_def sdiv_long_def Let_def)

lemma shortmean_0_30: "fst (shortmean 0 30) = 15"
  by (simp add: shortmean_def sdiv_long_def Let_def)

lemma stuff_example:
  "stuff_buffer_basic (vol_initial (\<lambda>k. 0)) 4 [0, 0, 10, 10, 30, 30, 70, 70, 0, 0] 1 0
     = Some (5, [0, 0, 5, 5, 10, 10, 30, 30, 70, 70, 0, 0], vol_initial (\<lambda>k. 0))"
  by (simp add: stuff_buffer_basic_def copy_samples_full vol_initial_full dithered_vol_full
      shortmean_0_10 signed_modulo_int_def)

section \<open>Facts about the rate limit\<close>

lemma tp_bound: "uint (drop_bit 32 (x :: 64 word)) < 2 ^ 32"
proof -
  have "unat x < 2 ^ 32 * 2 ^ 32" using unsigned_less [of x, where 'a = nat] by simp
  then have "unat x div 2 ^ 32 < 2 ^ 32" by (rule less_mult_imp_div_less)
  then have "unat (drop_bit 32 x) < 2 ^ 32"
    by (simp only: unat_drop_bit_eq drop_bit_eq_div [where 'a = nat])
  then have "int (unat (drop_bit 32 x)) < int (2 ^ 32)" by (simp only: of_nat_less_iff)
  then show ?thesis by simp
qed

lemma tp_sint: "sint (drop_bit 32 (x :: 64 word)) = uint (drop_bit 32 x)"
proof -
  define k where "k = uint (drop_bit 32 x)"
  have "0 \<le> k" "k < 2 ^ 32" using tp_bound [of x] by (simp_all add: k_def)
  then have "signed_take_bit 63 k = k"
    by (intro signed_take_bit_int_eq_self) simp_all
  then show ?thesis by (simp add: sint_uint k_def)
qed

lemma tp_less_5: "(drop_bit 32 (x :: 64 word) <s 5) = (uint (drop_bit 32 x) < 5)"
  by (simp add: word_sless_alt tp_sint)

lemma tp_less_30: "(drop_bit 32 (x :: 64 word) <s 30) = (uint (drop_bit 32 x) < 30)"
  by (simp add: word_sless_alt tp_sint)

lemma drop_draws: "{r :: int. 0 \<le> r \<and> r < 1000 \<and> 352 < r smod 1000} = {353..<1000}"
  by (auto simp add: smod_pos)

lemma card_drop_draws: "card {r :: int. 0 \<le> r \<and> r < 1000 \<and> 352 < r smod 1000} = 647"
  by (simp add: drop_draws)

lemma stuff_rate_limit_mid:
  assumes "amount \<noteq> 0" and "now \<noteq> 0" and "fpttp \<noteq> 0" and "fpttp \<le> now"
    and "5 \<le> uint (drop_bit 32 (now - fpttp))" and "uint (drop_bit 32 (now - fpttp)) < 30"
  shows "stuff_rate_limit amount now fpttp rnd = (if 352 < rnd smod 1000 then 0 else amount)"
  using assms by (simp add: stuff_rate_limit_def Let_def tp_less_5 tp_less_30)

lemma ten_seconds: "uint (drop_bit 32 (42949672961 - 1 :: 64 word)) = 10"
  by (simp add: unsigned_drop_bit_eq drop_bit_eq_div [where 'a = int] take_bit_int_mod)

lemma two_seconds: "uint (drop_bit 32 (8589934593 - 1 :: 64 word)) = 2"
  by (simp add: unsigned_drop_bit_eq drop_bit_eq_div [where 'a = int] take_bit_int_mod)

section \<open>Facts about the reachable states\<close>

text \<open>
  The segments put together again give \<open>player_put_packet\<close> and \<open>player_flush\<close>.
\<close>

lemma player_put_packet_segments:
  "player_put_packet st now seqno ts pcm
     = (if fst (put_enter st now ts)
        then put_ring (if put_reset (snd (put_enter st now ts)) ts
                       then flush_clear (snd (put_enter st now ts))
                       else snd (put_enter st now ts)) seqno ts pcm
        else snd (put_enter st now ts))"
  by (simp add: player_put_packet_def put_enter_def put_reset_def flush_clear_def
      put_ring_def Let_def)

lemma player_flush_steps: "player_flush st ts = flush_finish (flush_request st ts)"
  by (simp add: player_flush_def flush_finish_def flush_request_def)
























































text \<open>
  The inner loop of the pass on a slot that is not ready, with a flush timestamp
  pending: two steps lead back to the same state.
\<close>

lemma drain_spin:
  assumes "player_pc s = AtLoop fl"
    and "\<not> ready (audio_buffer (shared s) (BUFIDX (ab_read (shared s))))"
    and "flush_rtp_timestamp (shared s) \<noteq> 0" and "fl \<le> 8820"
  shows "sys_pass_next (sys_pass_next s) = s"
  using assms
  by (simp add: sys_pass_next_def pass_step_def drain_drop_def drain_test_def Let_def)

text \<open>
  A call of \<open>player_flush\<close> that lands in \<open>player_put_packet\<close> after the flush filter,
  with the timestamp of the packet: the packet is not dropped, and the flush timestamp
  is cleared.
\<close>

lemma flush_in_put:
  assumes "packet_pc s = PutTest seqno ts pcm" and "ts \<noteq> 0"
  shows "flush_rtp_timestamp (shared (sys_put_next (sys_put_next (sys_flush_request ts s)))) = 0
         \<and> packet_pc (sys_put_next (sys_put_next (sys_flush_request ts s))) = PutRing seqno ts pcm"
  using assms
  by (simp add: sys_put_next_def sys_flush_request_def flush_request_def put_reset_def
      flush_clear_def seq32_order_def)

section \<open>Sequence arithmetic: the ordinate\<close>

text \<open>
  C5 (amended). For every sequence number \<open>x\<close> and anchor \<open>ab_read\<close> whose wrapped
  distance \<open>(x - ab_read) mod 2^16\<close> is not 32767, \<open>ORDINATE\<close> returns the signed 16-bit
  distance of \<open>x\<close> from the anchor, and the value lies in \<open>[-32768, 32767)\<close>.
\<close>

theorem ORDINATE_signed_distance:
  assumes "uint (x - abr) \<noteq> 32767"
  shows "sint (ORDINATE abr x) = sint (x - abr)
         \<and> - 32768 \<le> sint (ORDINATE abr x) \<and> sint (ORDINATE abr x) < 32767"
proof -
  define k where "k = uint (x - abr)"
  have "0 \<le> k" "k < 65536" "k \<noteq> 32767"
    using uint16_bounds [of "x - abr"] assms by (simp_all add: k_def)
  then show ?thesis
    unfolding ORDINATE_sint sint16_uint k_def [symmetric] by simp
qed

theorem ORDINATE_signed_distance_witness:
  "uint (65535 - 0 :: seq_t) \<noteq> 32767
   \<and> sint (ORDINATE 0 65535) = - 1
   \<and> sint (ORDINATE 0 65535) = sint (65535 - 0 :: seq_t)"
proof -
  have h: "uint (65535 - 0 :: seq_t) \<noteq> 32767" by simp
  have s: "sint (65535 - 0 :: seq_t) = - 1" by simp
  from ORDINATE_signed_distance [OF h] h s show ?thesis by simp
qed

text \<open>
  C5 as stated fails at distance 32767: the test \<open>t >= 32767\<close> sends it to \<open>-32769\<close>,
  which is below \<open>-32768\<close> and is not the signed 16-bit distance \<open>32767\<close>.
\<close>

theorem ORDINATE_counterexample:
  "sint (ORDINATE 0 32767) = - 32769 \<and> sint (32767 - 0 :: seq_t) = 32767
   \<and> \<not> (- 32768 \<le> sint (ORDINATE 0 32767))"
  by (simp add: ORDINATE_sint)




section \<open>The producer\<close>

text \<open>
  C4. With the connection on, no flush filter and the ring synced, a packet whose
  sequence number is after \<open>ab_write\<close> (\<open>k\<close> slots ahead, \<open>k > 0\<close>) has every slot
  \<open>BUFIDX(ab_write + i)\<close>, \<open>i < k\<close>, set to not ready with timestamp and sequence number
  0 (the packet's own slot, where the range wraps onto it, then receives the packet), issues
  exactly one resend request \<open>(ab_write, k)\<close>, whose range ends at \<open>PREDECESSOR(seqno)\<close>,
  decodes the packet into slot \<open>BUFIDX(seqno)\<close> and sets \<open>ab_write\<close> to
  \<open>SUCCESSOR(seqno)\<close>. The witness is the scenario of packets 100, 101, 103.
\<close>

theorem put_packet_ahead:
  assumes "connection_state_to_output st" "flush_rtp_timestamp st = 0" "ab_synced st"
    and "ab_write st \<noteq> seqno" "seq_order (ab_read st) (ab_write st) seqno"
  shows "let st' = player_put_packet st now seqno ts pcm; k = unat (seqno - ab_write st) in
       0 < k
     \<and> seq_sum (ab_write st) (of_nat (k - 1)) = PREDECESSOR seqno
     \<and> resend_log st' = resend_log st @ [(ab_write st, of_nat k)]
     \<and> resend_requests st' = resend_requests st + 1
     \<and> (\<forall>i<k. BUFIDX (seq_sum (ab_write st) (of_nat i)) \<noteq> BUFIDX seqno \<longrightarrow>
           audio_buffer st' (BUFIDX (seq_sum (ab_write st) (of_nat i)))
             = (audio_buffer st (BUFIDX (seq_sum (ab_write st) (of_nat i))))
                 \<lparr>ready := False, timestamp := 0, sequence_number := 0\<rparr>)
     \<and> audio_buffer st' (BUFIDX seqno)
           = \<lparr>ready = True, timestamp = ts, sequence_number = seqno,
              data = alac_decode (data (audio_buffer st (BUFIDX seqno))) pcm\<rparr>
     \<and> ab_write st' = SUCCESSOR seqno
     \<and> ab_read st' = ab_read st"
proof -
  define k where "k = unat (seqno - ab_write st)"
  have kpos: "0 < k" using gap_word(3) [OF assms(5)] by (simp add: k_def)
  have last: "seq_sum (ab_write st) (of_nat (k - 1)) = PREDECESSOR seqno"
  proof -
    have "(of_nat (k - 1) :: 16 word) = of_nat k - 1" using kpos by (simp add: of_nat_diff)
    then show ?thesis by (simp add: seq_sum_plus PREDECESSOR_minus k_def)
  qed
  have zs: "\<And>i. i < k \<Longrightarrow>
      zero_slots k 0 (ab_write st) (audio_buffer st) (BUFIDX (seq_sum (ab_write st) (of_nat i)))
        = (audio_buffer st (BUFIDX (seq_sum (ab_write st) (of_nat i))))
            \<lparr>ready := False, timestamp := 0, sequence_number := 0\<rparr>"
    by (auto simp add: zero_slots_at seq_sum_plus)
  have dt: "data (zero_slots k 0 (ab_write st) (audio_buffer st) (BUFIDX seqno))
              = data (audio_buffer st (BUFIDX seqno))"
    by (simp add: zero_slots_at)
  show ?thesis
    unfolding put_packet_ahead_state [OF assms] Let_def k_def [symmetric]
    using kpos last zs dt by simp
qed

theorem put_packet_ahead_witness:
  "let st2 = player_put_packet (player_put_packet (play_state True []) 1 100 1000 [1, 2])
               2 101 1352 [3, 4];
       st3 = player_put_packet st2 3 103 2056 [5, 6]
   in connection_state_to_output st2 \<and> flush_rtp_timestamp st2 = 0 \<and> ab_synced st2
      \<and> ab_write st2 = 102 \<and> ab_write st2 \<noteq> 103 \<and> seq_order (ab_read st2) (ab_write st2) 103
      \<and> resend_log st3 = [(102, 1)]
      \<and> audio_buffer st3 (BUFIDX 102)
            = \<lparr>ready = False, timestamp = 0, sequence_number = 0, data = []\<rparr>
      \<and> audio_buffer st3 (BUFIDX 103)
            = \<lparr>ready = True, timestamp = 2056, sequence_number = 103, data = [5, 6]\<rparr>
      \<and> ab_write st3 = 104"
proof -
  define st2 where "st2 = player_put_packet (player_put_packet (play_state True []) 1 100 1000 [1, 2])
               2 101 1352 [3, 4]"
  have f: "connection_state_to_output st2" "flush_rtp_timestamp st2 = 0" "ab_synced st2"
    "ab_write st2 = 102" "ab_read st2 = 100" "resend_log st2 = []"
    "audio_buffer st2 (BUFIDX 102) = \<lparr>ready = False, timestamp = 0, sequence_number = 0, data = []\<rparr>"
    "data (audio_buffer st2 (BUFIDX 103)) = []"
    unfolding st2_def by code_simp+
  have ne: "ab_write st2 \<noteq> 103" by (simp add: f)
  have so: "seq_order (ab_read st2) (ab_write st2) 103"
    by (simp add: f seq_order_sint ORDINATE_sint)
  have i: "BUFIDX 102 \<noteq> BUFIDX 103" by (simp add: BUFIDX_def BUFFER_FRAMES_def)
  show ?thesis
    unfolding st2_def [symmetric] Let_def
    using put_packet_ahead [OF f(1) f(2) f(3) ne so, of 3 2056 "[5, 6]"] f ne so i
    by (simp add: Let_def seq_sum_plus SUCCESSOR_plus alac_decode_def)
qed

text \<open>
  C2 (amended). With the connection on and a flush filter active, a packet whose timestamp
  equals \<open>flush_rtp_timestamp\<close>, or is before it in the order of \<open>seq32_order\<close>, changes
  only \<open>packet_count\<close> and \<open>time_of_last_audio_packet\<close>. A packet strictly after it
  clears the filter and is handled exactly as with no filter: it is stored in slot
  \<open>BUFIDX(seqno)\<close> unless the sequence classification finds it too late, in which case
  the ring and the cursors stay as they are and \<open>too_late_packets\<close> is incremented.
\<close>

theorem flush_filter:
  assumes "connection_state_to_output st" "flush_rtp_timestamp st \<noteq> 0"
  shows "(ts = flush_rtp_timestamp st \<or> seq32_order ts (flush_rtp_timestamp st) \<longrightarrow>
            player_put_packet st now seqno ts pcm
              = st\<lparr>packet_count := packet_count st + 1, time_of_last_audio_packet := now\<rparr>)
       \<and> (seq32_order (flush_rtp_timestamp st) ts \<longrightarrow>
            (let st' = player_put_packet st now seqno ts pcm in
               flush_rtp_timestamp st' = 0
             \<and> player_put_packet (st\<lparr>flush_rtp_timestamp := 0\<rparr>) now seqno ts pcm = st'
             \<and> (if \<not> ab_synced st \<or> ab_write st = seqno
                    \<or> seq_order (ab_read st) (ab_write st) seqno
                    \<or> seq_order (ab_read st) (ab_read st) seqno
                 then audio_buffer st' (BUFIDX seqno)
                        = \<lparr>ready = True, timestamp = ts, sequence_number = seqno,
                           data = alac_decode (data (audio_buffer st (BUFIDX seqno))) pcm\<rparr>
                 else audio_buffer st' = audio_buffer st
                      \<and> ab_read st' = ab_read st \<and> ab_write st' = ab_write st
                      \<and> too_late_packets st' = too_late_packets st + 1)))"
proof (intro conjI impI)
  assume "ts = flush_rtp_timestamp st \<or> seq32_order ts (flush_rtp_timestamp st)"
  then show "player_put_packet st now seqno ts pcm
              = st\<lparr>packet_count := packet_count st + 1, time_of_last_audio_packet := now\<rparr>"
    using assms by (auto simp add: player_put_packet_def Let_def)
next
  assume a: "seq32_order (flush_rtp_timestamp st) ts"
  have n: "\<not> seq32_order ts (flush_rtp_timestamp st)" "ts \<noteq> flush_rtp_timestamp st"
    using seq32_order_asym [OF a] by auto
  have dt: "\<And>k w. data (zero_slots k 0 w (audio_buffer st) (BUFIDX seqno))
              = data (audio_buffer st (BUFIDX seqno))"
    by (simp add: zero_slots_at)
  show "let st' = player_put_packet st now seqno ts pcm in
               flush_rtp_timestamp st' = 0
             \<and> player_put_packet (st\<lparr>flush_rtp_timestamp := 0\<rparr>) now seqno ts pcm = st'
             \<and> (if \<not> ab_synced st \<or> ab_write st = seqno
                    \<or> seq_order (ab_read st) (ab_write st) seqno
                    \<or> seq_order (ab_read st) (ab_read st) seqno
                 then audio_buffer st' (BUFIDX seqno)
                        = \<lparr>ready = True, timestamp = ts, sequence_number = seqno,
                           data = alac_decode (data (audio_buffer st (BUFIDX seqno))) pcm\<rparr>
                 else audio_buffer st' = audio_buffer st
                      \<and> ab_read st' = ab_read st \<and> ab_write st' = ab_write st
                      \<and> too_late_packets st' = too_late_packets st + 1)"
    using assms n dt
    by (simp add: player_put_packet_def put_classify_def Let_def abuf_all_fields)
qed

theorem flush_filter_witness:
  "connection_state_to_output (player_flush (play_state True []) 5000)
   \<and> flush_rtp_timestamp (player_flush (play_state True []) 5000) \<noteq> 0
   \<and> audio_buffer (player_put_packet (player_flush (play_state True []) 5000) 1 100 5000 [1, 2])
        = audio_buffer (player_flush (play_state True []) 5000)
   \<and> ab_synced (player_put_packet (player_flush (play_state True []) 5000) 1 100 5000 [1, 2]) = False
   \<and> seq32_order 5000 5001
   \<and> flush_rtp_timestamp
        (player_put_packet (player_flush (play_state True []) 5000) 1 100 5001 [1, 2]) = 0
   \<and> audio_buffer (player_put_packet (player_flush (play_state True []) 5000) 1 100 5001 [1, 2])
        (BUFIDX 100)
        = \<lparr>ready = True, timestamp = 5001, sequence_number = 100, data = [1, 2]\<rparr>"
proof -
  define st where "st = player_flush (play_state True []) 5000"
  have f: "connection_state_to_output st" "flush_rtp_timestamp st \<noteq> 0"
    "flush_rtp_timestamp st = 5000" "ab_synced st = False"
    "data (audio_buffer st (BUFIDX 100)) = []"
    unfolding st_def by code_simp+
  have o: "seq32_order 5000 5001" by (simp add: seq32_order_sint)
  show ?thesis
    unfolding st_def [symmetric]
    using flush_filter [OF f(1) f(2), of 5000 1 100 "[1, 2]"]
          flush_filter [OF f(1) f(2), of 5001 1 100 "[1, 2]"] f o
    by (simp add: Let_def alac_decode_def)
qed

text \<open>
  C2 as stated fails for a packet that passes the filter and is too late for the ring:
  after packet 100 and a flush to timestamp 5, packet 50 with timestamp 6 clears the
  filter's test and is not stored.
\<close>

theorem flush_filter_counterexample:
  "connection_state_to_output
      (player_flush (player_put_packet (play_state True []) 1 100 1000 [1, 2]) 5)
   \<and> flush_rtp_timestamp
      (player_flush (player_put_packet (play_state True []) 1 100 1000 [1, 2]) 5) = 5
   \<and> seq32_order 5 6
   \<and> audio_buffer
        (player_put_packet
          (player_flush (player_put_packet (play_state True []) 1 100 1000 [1, 2]) 5) 2 50 6 [3, 4])
      = audio_buffer (player_flush (player_put_packet (play_state True []) 1 100 1000 [1, 2]) 5)
   \<and> ready (audio_buffer
        (player_put_packet
          (player_flush (player_put_packet (play_state True []) 1 100 1000 [1, 2]) 5) 2 50 6 [3, 4])
        (BUFIDX 50)) = False
   \<and> too_late_packets
        (player_put_packet
          (player_flush (player_put_packet (play_state True []) 1 100 1000 [1, 2]) 5) 2 50 6 [3, 4])
      = 1"
  by (simp add: play_state_def ab_resync_def player_flush_def player_put_packet_def
      put_classify_def Let_def seq_order_sint ORDINATE_sint seq32_order_sint SUCCESSOR_plus
      BUFIDX_def BUFFER_FRAMES_def)




section \<open>Stuffing\<close>

text \<open>
  C9. With \<open>fix_volume = 2^16\<close> and stuff directive 0, \<open>stuff_buffer_basic\<close> writes the
  \<open>2 * frame_size\<close> shorts of the input frame to the output unchanged, leaves the volume
  state as it was (no dither value is drawn), and returns \<open>frame_size\<close>.
\<close>

theorem stuff_none_full_volume:
  assumes "fix_volume vs = 0x10000" and "2 * nat fsz \<le> length inp"
  shows "stuff_buffer_basic vs fsz inp 0 rnd
           = Some (fsz, take (2 * nat fsz) inp, vs)"
  using assms copy_samples_full [of vs 0 "nat fsz" inp "[]"]
  by (simp add: stuff_buffer_basic_def)

theorem stuff_none_full_volume_witness:
  "fix_volume (vol_initial (\<lambda>k. 0)) = 0x10000
   \<and> 2 * nat 2 \<le> length [1, 2, 3, 4, 5, 6 :: 16 word]
   \<and> stuff_buffer_basic (vol_initial (\<lambda>k. 0)) 2 [1, 2, 3, 4, 5, 6] 0 7
        = Some (2, [1, 2, 3, 4], vol_initial (\<lambda>k. 0))"
  using stuff_none_full_volume [of "vol_initial (\<lambda>k. 0)" 2 "[1, 2, 3, 4, 5, 6]" 7]
  by (simp add: vol_initial_full)

text \<open>
  C7 (amended). In \<open>stuff_buffer_basic\<close> with directive \<open>+1\<close>, \<open>frame_size \<ge> 3\<close> and
  \<open>k = rand() % (frame_size - 2) + 1\<close>, the index \<open>k\<close> lies in \<open>[1, frame_size - 2]\<close>,
  the first \<open>k\<close> stereo samples come from the copy loop, and the inserted stereo sample
  at position \<open>k\<close> is, on each channel, \<open>dithered_vol\<close> of the mean (truncated towards
  zero) of the input samples \<open>k - 1\<close> and \<open>k\<close>, its neighbours in the output.
\<close>

theorem stuff_insert_mean:
  assumes "3 \<le> fsz" and "0 \<le> rnd" and "2 * nat fsz + 2 \<le> length inp"
  shows "let k = nat (rnd smod (fsz - 2) + 1) in
     1 \<le> k \<and> k \<le> nat fsz - 2
     \<and> (\<exists>vs1 out1 out vs'.
           copy_samples k vs inp 0 [] = Some (vs1, 2 * k, out1)
         \<and> stuff_buffer_basic vs fsz inp 1 rnd = Some (fsz + 1, out, vs')
         \<and> take (2 * k) out = out1
         \<and> out ! (2 * k)
             = fst (dithered_vol vs1 (fst (shortmean (inp ! (2 * k - 2)) (inp ! (2 * k)))))
         \<and> out ! (2 * k + 1)
             = fst (dithered_vol
                     (snd (dithered_vol vs1 (fst (shortmean (inp ! (2 * k - 2)) (inp ! (2 * k))))))
                     (fst (shortmean (inp ! (2 * k - 1)) (inp ! (2 * k + 1))))))"
proof -
  define k where "k = nat (rnd smod (fsz - 2) + 1)"
  define F where "F = nat fsz"
  define m where "m = rnd mod (fsz - 2)"
  have mb: "0 \<le> m" "m < fsz - 2" using assms(1) by (simp_all add: m_def)
  have sm: "rnd smod (fsz - 2) = m" using assms(1,2) by (simp add: smod_pos m_def)
  have kk: "int k = m + 1" using mb by (simp add: k_def sm)
  have FF: "int F = fsz" using assms(1) by (simp add: F_def)
  have k2: "int k + 2 \<le> int F" "1 \<le> int k" "3 \<le> int F"
    using kk FF mb assms(1) by simp_all
  have ki: "rnd smod (fsz - 2) + 1 = int k" "1 \<le> k" "k \<le> F - 2" "3 \<le> F" "fsz = int F"
    using k2 kk FF sm by simp_all
  have len: "2 * F + 2 \<le> length inp" using assms(3) by (simp add: F_def)
  have l1: "0 + 2 * k \<le> length inp" using ki(3,4) len by simp
  from copy_samples_Some [OF l1, of vs "[]"]
  obtain vs1 out1 where c1: "copy_samples k vs inp 0 [] = Some (vs1, 2 * k, out1)" "length out1 = 2 * k"
    by auto
  obtain l vs2 where a: "dithered_vol vs1 (fst (shortmean (inp ! (2 * k - 2)) (inp ! (2 * k)))) = (l, vs2)"
    by (cases "dithered_vol vs1 (fst (shortmean (inp ! (2 * k - 2)) (inp ! (2 * k))))")
  obtain r vs3 where b: "dithered_vol vs2 (fst (shortmean (inp ! (2 * k - 1)) (inp ! (2 * k + 1)))) = (r, vs3)"
    by (cases "dithered_vol vs2 (fst (shortmean (inp ! (2 * k - 1)) (inp ! (2 * k + 1))))")
  have l2: "2 * k + 2 * (F + 1 - k) \<le> length inp" using ki(3,4) len by simp
  from copy_samples_Some [OF l2, of vs3 "out1 @ [l, r]"]
  obtain vs4 out4 where c2: "copy_samples (F + 1 - k) vs3 inp (2 * k) (out1 @ [l, r])
       = Some (vs4, 2 * k + 2 * (F + 1 - k), (out1 @ [l, r]) @ out4)"
    by auto
  have n2: "nat (fsz + 1 - (rnd smod (fsz - 2) + 1)) = F + 1 - k"
  proof -
    have "k \<le> F + 1" using ki(3,4) by simp
    then have "int (F + 1 - k) = int F + 1 - int k" by (simp add: of_nat_diff)
    also have "\<dots> = fsz + 1 - (rnd smod (fsz - 2) + 1)"
      by (simp add: kk FF sm)
    finally show ?thesis by (simp only: nat_int [symmetric])
  qed
  have n3: "nat (fsz - rnd smod (fsz - 2)) = F + 1 - k"
    using n2 by simp
  have n1: "nat (rnd smod (fsz - 2) + 1) = k" by (simp add: k_def)
  have fs: "fsz - 2 \<noteq> 0" using assms(1) by simp
  have rd: "2 \<le> 2 * k" "2 * k + 1 < length inp" using ki(2,3,4) len by simp_all
  have res: "stuff_buffer_basic vs fsz inp 1 rnd = Some (fsz + 1, (out1 @ [l, r]) @ out4, vs4)"
    unfolding stuff_buffer_basic_def Let_def
    using fs rd c1 a b c2
    by (simp add: n1 n2 n3)
  show ?thesis
    unfolding Let_def k_def [symmetric]
    apply (intro conjI)
      apply (rule ki(2))
     apply (rule ki(3) [unfolded F_def])
    apply (rule exI [of _ vs1], rule exI [of _ out1], rule exI [of _ "(out1 @ [l, r]) @ out4"],
        rule exI [of _ vs4])
    using c1 res a b by (simp add: nth_append)
qed

theorem stuff_insert_mean_witness:
  "(3::int) \<le> 4 \<and> (0::int) \<le> 0
   \<and> 2 * nat 4 + 2 \<le> length [0, 0, 10, 10, 30, 30, 70, 70, 0, 0 :: 16 word]
   \<and> nat (0 smod (4 - 2) + 1) = 1
   \<and> stuff_buffer_basic (vol_initial (\<lambda>k. 0)) 4 [0, 0, 10, 10, 30, 30, 70, 70, 0, 0] 1 0
        = Some (5, [0, 0, 5, 5, 10, 10, 30, 30, 70, 70, 0, 0], vol_initial (\<lambda>k. 0))
   \<and> fst (shortmean 0 10) = 5"
  using stuff_insert_mean [of 4 0 "[0, 0, 10, 10, 30, 30, 70, 70, 0, 0]" "vol_initial (\<lambda>k. 0)"]
    stuff_example shortmean_0_10
  by (simp add: signed_modulo_int_def)

text \<open>
  C7 as stated fails: the mean is taken of the input samples \<open>k - 1\<close> and \<open>k\<close>, not
  \<open>k - 1\<close> and \<open>k + 1\<close>. With left channel 0, 10, 30, 70 and \<open>k = 1\<close> the inserted
  value is 5, and the mean of samples 0 and 2 is 15.
\<close>

theorem stuff_insert_mean_counterexample:
  "stuff_buffer_basic (vol_initial (\<lambda>k. 0)) 4 [0, 0, 10, 10, 30, 30, 70, 70, 0, 0] 1 0
     = Some (5, [0, 0, 5, 5, 10, 10, 30, 30, 70, 70, 0, 0], vol_initial (\<lambda>k. 0))
   \<and> nat (0 smod (4 - 2) + 1) = 1
   \<and> [0, 0, 5, 5, 10, 10, 30, 30, 70, 70, 0, 0 :: 16 word] ! (2 * 1) = 5
   \<and> fst (shortmean ([0, 0, 10, 10, 30, 30, 70, 70, 0, 0] ! (2 * (1 - 1)))
                     ([0, 0, 10, 10, 30, 30, 70, 70, 0, 0] ! (2 * (1 + 1)))) = 15"
  using stuff_example shortmean_0_30
  by (simp add: signed_modulo_int_def)

section \<open>The player thread: filler frames and the rate limit\<close>

text \<open>
  C3. For a frame whose timestamp is 0 the pass of the player loop succeeds, plays the
  frame's buffer directly with \<open>frame_size\<close> samples, and leaves untouched the volume and
  dither state and \<open>outbuf\<close> (no stuffing), every field of the sync statistics, the
  counter \<open>sync_error_out_of_bounds\<close>, the flush request and its timestamp, and the ring's
  slots; none of the timing inputs enters the result.
\<close>

theorem filler_frame_no_sync:
  assumes "timestamp (audio_buffer (ring t) slot) = 0"
  shows "\<exists>t'. player_thread_step env slot t = Some t'
     \<and> played t' = played t @ [(data (audio_buffer (ring t) slot), frame_size env)]
     \<and> vol t' = vol t \<and> outbuf t' = outbuf t
     \<and> statistics t' = statistics t
     \<and> number_of_statistics t' = number_of_statistics t
     \<and> oldest_statistic t' = oldest_statistic t
     \<and> newest_statistic t' = newest_statistic t
     \<and> tsum_of_sync_errors t' = tsum_of_sync_errors t
     \<and> tsum_of_corrections t' = tsum_of_corrections t
     \<and> tsum_of_insertions_and_deletions t' = tsum_of_insertions_and_deletions t
     \<and> tsum_of_drifts t' = tsum_of_drifts t
     \<and> previous_sync_error t' = previous_sync_error t
     \<and> previous_correction t' = previous_correction t
     \<and> session_corrections t' = session_corrections t
     \<and> sync_error_out_of_bounds t' = sync_error_out_of_bounds t
     \<and> flush_requested (ring t') = flush_requested (ring t)
     \<and> flush_rtp_timestamp (ring t') = flush_rtp_timestamp (ring t)
     \<and> audio_buffer (ring t') = audio_buffer (ring t)"
  using assms by (simp add: player_thread_step_def print_statistics_def Let_def)

theorem filler_frame_no_sync_witness:
  "timestamp (audio_buffer
      (ring ((thread_start (play_state True [7, 8]) (vol_initial (\<lambda>k. 0)))
               \<lparr>sync_error_out_of_bounds := 2, tsum_of_sync_errors := 9\<rparr>)) 5) = 0
   \<and> map_option played
        (player_thread_step
          \<lparr>reference_timestamp = 1000, reference_timestamp_time = 5, local_time_now = 42949672961,
           output_delay = Some 6000, random_value = 3, rand_value = 4,
           latency = 88200, tolerance = 88,
           resyncthreshold = 2205, frame_size = 1\<rparr>
          5
          ((thread_start (play_state True [7, 8]) (vol_initial (\<lambda>k. 0)))
               \<lparr>sync_error_out_of_bounds := 2, tsum_of_sync_errors := 9\<rparr>))
       = Some [([7, 8], 1)]
   \<and> map_option sync_error_out_of_bounds
        (player_thread_step
          \<lparr>reference_timestamp = 1000, reference_timestamp_time = 5, local_time_now = 42949672961,
           output_delay = Some 6000, random_value = 3, rand_value = 4,
           latency = 88200, tolerance = 88,
           resyncthreshold = 2205, frame_size = 1\<rparr>
          5
          ((thread_start (play_state True [7, 8]) (vol_initial (\<lambda>k. 0)))
               \<lparr>sync_error_out_of_bounds := 2, tsum_of_sync_errors := 9\<rparr>))
       = Some 2
   \<and> map_option tsum_of_sync_errors
        (player_thread_step
          \<lparr>reference_timestamp = 1000, reference_timestamp_time = 5, local_time_now = 42949672961,
           output_delay = Some 6000, random_value = 3, rand_value = 4,
           latency = 88200, tolerance = 88,
           resyncthreshold = 2205, frame_size = 1\<rparr>
          5
          ((thread_start (play_state True [7, 8]) (vol_initial (\<lambda>k. 0)))
               \<lparr>sync_error_out_of_bounds := 2, tsum_of_sync_errors := 9\<rparr>))
       = Some 9"
proof -
  define T where "T = (thread_start (play_state True [7, 8]) (vol_initial (\<lambda>k. 0)))
               \<lparr>sync_error_out_of_bounds := 2, tsum_of_sync_errors := 9\<rparr>"
  define E where "E = \<lparr>reference_timestamp = 1000, reference_timestamp_time = 5, local_time_now = 42949672961,
           output_delay = Some 6000, random_value = 3, rand_value = 4,
           latency = 88200, tolerance = 88,
           resyncthreshold = 2205, frame_size = 1\<rparr>"
  have h: "timestamp (audio_buffer (ring T) 5) = 0"
    by (simp add: T_def thread_start_def play_state_def ab_resync_def)
  have f: "played T = []" "data (audio_buffer (ring T) 5) = [7, 8]" "frame_size E = 1"
    "sync_error_out_of_bounds T = 2" "tsum_of_sync_errors T = 9"
    by (simp_all add: T_def E_def thread_start_def play_state_def ab_resync_def)
  show ?thesis
    unfolding T_def [symmetric] E_def [symmetric]
    using filler_frame_no_sync [OF h, of E] h f by auto
qed

text \<open>
  C8 (amended). For a nonzero stuff decision, with \<open>first_packet_time_to_play\<close> set and
  not after \<open>local_time_now\<close>: if fewer than 5 whole seconds have elapsed since it the
  correction is forced to 0; if at least 5 and fewer than 30 have elapsed, the correction
  is dropped exactly when \<open>random() % 1000 > 352\<close> and kept unchanged otherwise, which
  drops it for 647 of the 1000 draws in \<open>[0, 1000)\<close>.
\<close>

theorem stuff_rate_limit_window:
  assumes "amount \<noteq> 0" and "now \<noteq> 0" and "fpttp \<noteq> 0" and "fpttp \<le> now"
  shows "(uint (drop_bit 32 (now - fpttp)) < 5 \<longrightarrow> stuff_rate_limit amount now fpttp rnd = 0)
       \<and> (5 \<le> uint (drop_bit 32 (now - fpttp)) \<and> uint (drop_bit 32 (now - fpttp)) < 30 \<longrightarrow>
            (stuff_rate_limit amount now fpttp rnd = 0) = (352 < rnd smod 1000)
          \<and> stuff_rate_limit amount now fpttp rnd = (if 352 < rnd smod 1000 then 0 else amount)
          \<and> card {r. 0 \<le> r \<and> r < 1000 \<and> stuff_rate_limit amount now fpttp r = 0} = 647)"
proof (intro conjI impI)
  assume "uint (drop_bit 32 (now - fpttp)) < 5"
  then show "stuff_rate_limit amount now fpttp rnd = 0"
    using assms by (simp add: stuff_rate_limit_def Let_def tp_less_5)
next
  assume a: "5 \<le> uint (drop_bit 32 (now - fpttp)) \<and> uint (drop_bit 32 (now - fpttp)) < 30"
  note m = stuff_rate_limit_mid [OF assms a [THEN conjunct1] a [THEN conjunct2]]
  show "(stuff_rate_limit amount now fpttp rnd = 0) = (352 < rnd smod 1000)"
    using assms(1) by (simp add: m)
  show "stuff_rate_limit amount now fpttp rnd = (if 352 < rnd smod 1000 then 0 else amount)"
    by (rule m)
  have "{r. 0 \<le> r \<and> r < 1000 \<and> stuff_rate_limit amount now fpttp r = 0}
          = {r. 0 \<le> r \<and> r < 1000 \<and> 352 < r smod 1000}"
    using assms(1) by (auto simp add: m)
  then show "card {r. 0 \<le> r \<and> r < 1000 \<and> stuff_rate_limit amount now fpttp r = 0} = 647"
    by (simp only: card_drop_draws)
qed

theorem stuff_rate_limit_window_witness:
  "(1 :: int) \<noteq> 0 \<and> (42949672961 :: 64 word) \<noteq> 0 \<and> (1 :: 64 word) \<noteq> 0
   \<and> (1 :: 64 word) \<le> 42949672961
   \<and> uint (drop_bit 32 (42949672961 - 1 :: 64 word)) = 10
   \<and> stuff_rate_limit 1 42949672961 1 352 = 1
   \<and> stuff_rate_limit 1 42949672961 1 353 = 0
   \<and> card {r. 0 \<le> r \<and> r < 1000 \<and> stuff_rate_limit 1 42949672961 1 r = 0} = 647
   \<and> (8589934593 :: 64 word) \<noteq> 0 \<and> (1 :: 64 word) \<le> 8589934593
   \<and> uint (drop_bit 32 (8589934593 - 1 :: 64 word)) = 2
   \<and> stuff_rate_limit 1 8589934593 1 7 = 0"
proof -
  have h: "(1 :: int) \<noteq> 0" "(42949672961 :: 64 word) \<noteq> 0" "(1 :: 64 word) \<noteq> 0"
    "(1 :: 64 word) \<le> 42949672961" "(8589934593 :: 64 word) \<noteq> 0"
    "(1 :: 64 word) \<le> 8589934593"
    by (simp_all add: word_le_def)
  have s: "(352 :: int) smod 1000 = 352" "(353 :: int) smod 1000 = 353"
    by (simp_all add: signed_modulo_int_def)
  show ?thesis
    using stuff_rate_limit_window [OF h(1) h(2) h(3) h(4), of 352]
      stuff_rate_limit_window [OF h(1) h(2) h(3) h(4), of 353]
      stuff_rate_limit_window [OF h(1) h(5) h(3) h(6), of 7]
      h ten_seconds two_seconds s
    by simp
qed

text \<open>
  C8 as stated fails in its fraction: the draws 0 to 352 keep the correction, 353 of
  them, so it is dropped for 647 draws of 1000 and not for \<open>1000 - 352\<close>.
\<close>

theorem stuff_rate_limit_window_counterexample:
  "uint (drop_bit 32 (42949672961 - 1 :: 64 word)) = 10
   \<and> stuff_rate_limit 1 42949672961 1 352 = 1
   \<and> card {r. 0 \<le> r \<and> r < 1000 \<and> stuff_rate_limit 1 42949672961 1 r = 0} = 647
   \<and> (647 :: nat) \<noteq> 1000 - 352"
proof -
  have h: "(1 :: int) \<noteq> 0" "(42949672961 :: 64 word) \<noteq> 0" "(1 :: 64 word) \<noteq> 0"
    "(1 :: 64 word) \<le> 42949672961"
    by (simp_all add: word_le_def)
  have t: "5 \<le> uint (drop_bit 32 (42949672961 - 1 :: 64 word))"
    "uint (drop_bit 32 (42949672961 - 1 :: 64 word)) < 30"
    by (simp_all add: ten_seconds)
  note m = stuff_rate_limit_mid [OF h t]
  have "{r. 0 \<le> r \<and> r < 1000 \<and> stuff_rate_limit 1 42949672961 1 r = 0}
          = {r. 0 \<le> r \<and> r < 1000 \<and> 352 < r smod 1000}"
    by (auto simp add: m)
  then have c: "card {r. 0 \<le> r \<and> r < 1000 \<and> stuff_rate_limit 1 42949672961 1 r = 0} = 647"
    by (simp only: card_drop_draws)
  have k: "stuff_rate_limit 1 42949672961 1 352 = 1"
    by (simp add: m signed_modulo_int_def)
  show ?thesis using c k ten_seconds by simp
qed

section \<open>The mean of two samples\<close>

text \<open>
  C10. For all 16-bit signed \<open>a\<close> and \<open>b\<close> the branch \<open>r != longmean\<close> of \<open>shortmean\<close>
  is never taken, and the result is the mean of \<open>a\<close> and \<open>b\<close> truncated towards zero.
\<close>

theorem shortmean_total:
  "snd (shortmean a b) = False \<and> sint (fst (shortmean a b)) = (sint a + sint b) sdiv 2"
proof -
  define m where "m = (sint a + sint b) sdiv 2"
  have s: "sint ((scast a :: 64 word) + scast b) = sint a + sint b"
    using sint16_bounds [of a] sint16_bounds [of b]
    by (simp add: sint_word_ariths sint_scast_16_64 signed_take_bit_int_eq_self)
  have mb: "- 32768 \<le> m" "m \<le> 32767"
    using sdiv2_bounds [of "sint a + sint b"] sint16_bounds [of a] sint16_bounds [of b]
    by (simp_all add: m_def)
  have lm: "sdiv_long ((scast a :: 64 word) + scast b) 2 = word_of_int m"
    by (simp add: sdiv_long_def s m_def)
  have d: "(ucast (word_of_int m :: 64 word) :: 16 word) = word_of_int m"
    by (simp add: ucast_down_wi is_down)
  have r: "sint (word_of_int m :: 16 word) = m"
    using mb by (simp add: sint_sbintrunc' signed_take_bit_int_eq_self)
  have rb: "(scast (word_of_int m :: 16 word) :: 64 word) = word_of_int m"
    by (simp add: scast_eq r)
  show ?thesis
    unfolding shortmean_def Let_def lm d using r rb by (simp add: m_def)
qed

end
